theory Spec2Isabelle
  imports Complex_Main
begin

unbundle bit_operations_syntax

section \<open>Common types\<close>

text \<open>
  Python integers are \<open>int\<close>.  A Python float is the real number it stands for;
  infinities and NaN are outside the model.  The result of a floating-point operation
  is the exact result, except in the two places where the rounding decides what the
  code does or returns: the term \<open>a\<close> of the haversine formula, on which \<open>math.sqrt\<close> can
  raise, and the coordinates that \<open>_interpolate_path\<close> computes.  There every operation
  goes through the arithmetic of the machine (\<open>float_arith\<close> below).  A coordinate is the
  tuple \<open>(latitude, longitude)\<close> the source passes around.  Exceptions that the modelled
  functions can raise are values of \<open>error\<close>; a function that can raise returns
  \<open>error + 'a\<close> with \<open>Inl\<close> for the exception.
\<close>

datatype error = IndexError | ZeroDivisionError | ValueError | AttributeError | OverflowError

type_synonym coord = "real \<times> real"

section \<open>Polyline decoding (\<open>RoutingAPI._decode_polyline\<close>)\<close>

text \<open>
  The string is handled through the code points of its characters (\<open>ord\<close>).  The inner
  \<open>while True\<close> loop reads one character per round, so reading past the end of the
  string is the \<open>IndexError\<close> of \<open>polyline_str[index]\<close>.  The bit operations are those of
  Python's unbounded two's-complement integers, which are the ones of \<open>int\<close>.  The loops
  work on any list of code points; \<open>decode_polyline\<close> itself takes a string of 8-bit
  characters, which covers every string an encoder of the format writes.
\<close>

fun read_chunks :: "int list \<Rightarrow> nat \<Rightarrow> int \<Rightarrow> error + (int \<times> int list)" where
  "read_chunks [] shift result = Inl IndexError"
| "read_chunks (c # cs) shift result =
     (let b = c - 63;
          result' = result OR push_bit shift (b AND 0x1f)
      in if b < 0x20 then Inr (result', cs) else read_chunks cs (shift + 5) result')"

definition unzigzag :: "int \<Rightarrow> int" where
  "unzigzag result = (if result AND 1 \<noteq> 0 then NOT (drop_bit 1 result) else drop_bit 1 result)"

lemma read_chunks_shorter:
  "read_chunks cs shift result = Inr (r, cs') \<Longrightarrow> length cs' < length cs"
proof (induction cs arbitrary: shift result)
  case Nil
  then show ?case by simp
next
  case (Cons c cs)
  then show ?case by (fastforce simp: Let_def split: if_splits)
qed

function decode_loop :: "int list \<Rightarrow> int \<Rightarrow> int \<Rightarrow> coord list \<Rightarrow> error + coord list" where
  "decode_loop cs lat lng coordinates =
     (if cs = [] then Inr coordinates
      else case read_chunks cs 0 0 of
        Inl e \<Rightarrow> Inl e
      | Inr (result1, cs1) \<Rightarrow>
          (case read_chunks cs1 0 0 of
             Inl e \<Rightarrow> Inl e
           | Inr (result2, cs2) \<Rightarrow>
               decode_loop cs2 (lat + unzigzag result1) (lng + unzigzag result2)
                 (coordinates @ [(real_of_int (lat + unzigzag result1) / 100000,
                                  real_of_int (lng + unzigzag result2) / 100000)])))"
  by pat_completeness auto
termination
proof (relation "measure (\<lambda>(cs, lat, lng, coordinates). length cs)")
  show "wf (measure (\<lambda>(cs, lat, lng, coordinates). length cs))"
    by simp
next
  fix cs :: "int list" and lat lng :: int and coordinates :: "coord list"
    and x2 result1 cs1 x2a result2 cs2
  assume "read_chunks cs 0 0 = Inr x2" "(result1, cs1) = x2"
    "read_chunks cs1 0 0 = Inr x2a" "(result2, cs2) = x2a"
  then have "length cs1 < length cs" "length cs2 < length cs1"
    using read_chunks_shorter by metis+
  then show "((cs2, lat + unzigzag result1, lng + unzigzag result2,
                coordinates @ [(real_of_int (lat + unzigzag result1) / 100000,
                                real_of_int (lng + unzigzag result2) / 100000)]),
               (cs, lat, lng, coordinates))
             \<in> measure (\<lambda>(cs, lat, lng, coordinates). length cs)"
    by simp
qed

definition ord :: "char \<Rightarrow> int" where
  "ord c = of_char c"

definition decode_polyline :: "string \<Rightarrow> error + coord list" where
  "decode_polyline polyline_str = decode_loop (map ord polyline_str) 0 0 []"

subsection \<open>The reference encoder\<close>

text \<open>
  The repository has no encoder.  The specification asks for a round trip with the
  published Encoded Polyline Algorithm Format, so the encoder below follows the steps
  of that format: multiply by \<open>1e5\<close> and round; take the difference to the previous
  point; shift left by one bit and invert if the value is negative; cut into 5-bit
  chunks from the low end; set bit \<open>0x20\<close> on every chunk but the last; add 63 and
  write the character.
\<close>

function encode_chunks :: "int \<Rightarrow> int list" where
  "encode_chunks v =
     (if v \<ge> 0x20 then ((0x20 OR (v AND 0x1f)) + 63) # encode_chunks (drop_bit 5 v)
      else [v + 63])"
  by pat_completeness auto
termination
  by (relation "measure nat") (simp_all add: drop_bit_eq_div)

declare encode_chunks.simps [simp del]
declare decode_loop.simps [simp del]

definition zigzag :: "int \<Rightarrow> int" where
  "zigzag v = (if v < 0 then NOT (push_bit 1 v) else push_bit 1 v)"

definition encode_value :: "int \<Rightarrow> int list" where
  "encode_value v = encode_chunks (zigzag v)"

fun encode_points :: "int \<times> int \<Rightarrow> (int \<times> int) list \<Rightarrow> int list" where
  "encode_points prev [] = []"
| "encode_points (plat, plng) ((lat, lng) # ps) =
     encode_value (lat - plat) @ encode_value (lng - plng) @ encode_points (lat, lng) ps"

definition e5 :: "coord \<Rightarrow> int \<times> int" where
  "e5 p = (round (fst p * 100000), round (snd p * 100000))"

definition chr :: "int \<Rightarrow> char" where
  "chr c = char_of c"

definition encode_polyline :: "coord list \<Rightarrow> string" where
  "encode_polyline pts = map chr (encode_points (0, 0) (map e5 pts))"

section \<open>The world outside the program\<close>

text \<open>
  Everything the routing code obtains from outside is read from a \<open>world\<close> value that is
  passed through the calls: the state of Python's global random generator, the replies
  of the two routing services (the reply to the \<open>n\<close>-th request that is sent), the
  wall clock (\<open>datetime.now()\<close>, in microseconds since 0001-01-01 00:00:00; it stands
  still during a call), and the floating-point arithmetic of the machine.  \<open>route_log\<close>
  is a trace: \<open>get_optimal_route\<close> appends the pair of coordinates it was called with,
  so that statements about which routes were requested can be made.

  The random generator is abstract: \<open>random_op\<close> is \<open>random.random()\<close>,
  \<open>randbelow_op n\<close> is the generator's \<open>_randbelow(n)\<close> and \<open>seed_op\<close> is the state
  after \<open>random.seed\<close>.  The functions of the \<open>random\<close> module that the code calls are
  written on top of them as the library does.
\<close>

text \<open>
  The floating-point arithmetic: \<open>fl x\<close> is the float that an operation \<open>+\<close>, \<open>-\<close>, \<open>*\<close>
  or \<open>/\<close> returns when its exact result is \<open>x\<close>; the other fields are
  \<open>math.radians\<close>, \<open>math.sin\<close>, \<open>math.cos\<close> and the power \<open>x ** n\<close>.  Nothing is assumed
  about them.  \<open>exact_arith\<close> is the arithmetic without rounding.
\<close>

record float_arith =
  fl :: "real \<Rightarrow> real"
  f_radians :: "real \<Rightarrow> real"
  f_sin :: "real \<Rightarrow> real"
  f_cos :: "real \<Rightarrow> real"
  f_pow :: "real \<Rightarrow> nat \<Rightarrow> real"

record 'g rng_ops =
  seed_op :: "int \<Rightarrow> 'g"
  random_op :: "'g \<Rightarrow> real \<times> 'g"
  randbelow_op :: "nat \<Rightarrow> 'g \<Rightarrow> nat \<times> 'g"

text \<open>
  A reply is either an exception of the request itself (timeout, no connection), or a
  status code with a body.  The body \<open>None\<close> stands for a body on which
  \<open>response.json()\<close> or one of the adapter's field accesses raises.
\<close>

datatype 'd reply = RequestError | Response int "'d option"

record google_step =
  html_instructions :: "string option"
  gs_distance_value :: real
  gs_duration_value :: real

record google_leg =
  gl_distance_value :: real
  gl_duration_value :: real
  gl_duration_in_traffic_value :: "real option"
  gl_start_address :: string
  gl_end_address :: string
  gl_steps :: "google_step list"

record google_route =
  gr_legs :: "google_leg list"
  gr_overview_polyline :: string
  gr_warnings :: "string list option"

record google_data =
  gd_status :: string
  gd_routes :: "google_route list"

record ors_step =
  os_instruction :: "string option"
  os_distance :: real
  os_duration :: real

record ors_segment =
  seg_steps :: "ors_step list option"

record ors_route =
  or_summary_distance :: real
  or_summary_duration :: real
  or_geometry_coordinates :: "(real \<times> real) list"
  or_segments :: "ors_segment list option"

record ors_data =
  od_routes :: "ors_route list option"

record 'g world =
  rng :: 'g
  google_replies :: "nat \<Rightarrow> google_data reply"
  openroute_replies :: "nat \<Rightarrow> ors_data reply"
  requests :: nat
  route_log :: "(coord \<times> coord) list"
  clock :: int
  arith :: float_arith

definition random_uniform :: "'g rng_ops \<Rightarrow> real \<Rightarrow> real \<Rightarrow> 'g world \<Rightarrow> real \<times> 'g world" where
  "random_uniform R a b w =
     (let (u, g) = random_op R (rng w) in (a + (b - a) * u, w\<lparr>rng := g\<rparr>))"

section \<open>Numbers\<close>

text \<open>
  \<open>int(x)\<close> truncates towards zero.  \<open>round(x, ndigits)\<close> rounds to the nearest multiple
  of \<open>10^-ndigits\<close>, a tie going to the even neighbour.  \<open>math.sqrt\<close> raises
  \<open>ValueError\<close> on a negative argument.  \<open>math.atan2\<close> is the angle of the point
  \<open>(x, y)\<close>.
\<close>

definition py_int :: "real \<Rightarrow> int" where
  "py_int x = (if 0 \<le> x then \<lfloor>x\<rfloor> else \<lceil>x\<rceil>)"

definition round_half_even :: "real \<Rightarrow> int" where
  "round_half_even x =
     (let f = \<lfloor>x\<rfloor>; d = x - of_int f
      in if d < 1 / 2 then f else if 1 / 2 < d then f + 1 else if even f then f else f + 1)"

definition py_round :: "real \<Rightarrow> nat \<Rightarrow> real" where
  "py_round x ndigits = of_int (round_half_even (x * 10 ^ ndigits)) / 10 ^ ndigits"

definition radians :: "real \<Rightarrow> real" where
  "radians x = x * pi / 180"

definition exact_arith :: float_arith where
  "exact_arith = \<lparr>fl = (\<lambda>x. x), f_radians = radians, f_sin = sin, f_cos = cos,
                   f_pow = (\<lambda>x n. x ^ n)\<rparr>"

definition math_sqrt :: "real \<Rightarrow> error + real" where
  "math_sqrt x = (if x < 0 then Inl ValueError else Inr (sqrt x))"

definition atan2 :: "real \<Rightarrow> real \<Rightarrow> real" where
  "atan2 y x =
     (if 0 < x then arctan (y / x)
      else if x < 0 \<and> 0 \<le> y then arctan (y / x) + pi
      else if x < 0 then arctan (y / x) - pi
      else if 0 < y then pi / 2
      else if y < 0 then - (pi / 2)
      else 0)"

section \<open>Routes (\<open>RoutingAPI\<close>)\<close>

record step =
  instruction :: string
  step_distance :: real
  step_duration :: real

text \<open>
  A route is the dictionary the routing functions return.  A key that only some of the
  functions set is an optional field: \<open>duration_in_traffic\<close>, the addresses and
  \<open>warnings\<close> are absent from OpenRouteService routes, \<open>simulated\<close> is set by the
  simulator only, \<open>route_name\<close> by \<open>get_multiple_routes\<close> only.
\<close>

record route =
  distance :: real
  duration :: real
  duration_in_traffic :: "real option"
  start_address :: "string option"
  end_address :: "string option"
  coordinates :: "coord list"
  steps :: "step list"
  warnings :: "string list option"
  service :: string
  simulated :: "bool option"
  route_name :: "string option"

record routing_api =
  api_service :: string
  api_key :: "string option"
  enabled :: bool

definition py_or :: "string option \<Rightarrow> string option \<Rightarrow> string option" where
  "py_or a b = (case a of Some (c # cs) \<Rightarrow> a | _ \<Rightarrow> b)"

definition getenv :: "(string \<rightharpoonup> string) \<Rightarrow> string \<Rightarrow> string \<Rightarrow> string" where
  "getenv env name dflt = (case env name of Some v \<Rightarrow> v | None \<Rightarrow> dflt)"

definition RoutingAPI_init :: "(string \<rightharpoonup> string) \<Rightarrow> string \<Rightarrow> string option \<Rightarrow> routing_api" where
  "RoutingAPI_init env srv key =
     (let k = (if srv = ''google''
               then py_or key (Some (getenv env ''GOOGLE_MAPS_API_KEY''
                                       ''YOUR_GOOGLE_MAPS_API_KEY_HERE''))
               else if srv = ''openroute''
               then py_or key (Some (getenv env ''OPENROUTE_API_KEY''
                                       ''YOUR_OPENROUTE_API_KEY_HERE''))
               else None)
      in \<lparr>api_service = srv, api_key = k,
          enabled = (k \<notin> {Some ''YOUR_GOOGLE_MAPS_API_KEY_HERE'',
                            Some ''YOUR_OPENROUTE_API_KEY_HERE'', None})\<rparr>)"

subsection \<open>\<open>_haversine_distance\<close>\<close>

text \<open>
  The term \<open>a\<close> and the difference \<open>1 - a\<close> are computed in the arithmetic \<open>F\<close>: the
  exact \<open>a\<close> lies between 0 and 1, the computed one need not, and then \<open>math.sqrt\<close>
  raises.  What follows the two square roots is exact.
\<close>

definition haversine_distance :: "float_arith \<Rightarrow> coord \<Rightarrow> coord \<Rightarrow> error + real" where
  "haversine_distance F coord1 coord2 =
     (let R = 6371;
          lat1 = f_radians F (fst coord1); lon1 = f_radians F (snd coord1);
          lat2 = f_radians F (fst coord2); lon2 = f_radians F (snd coord2);
          dlat = fl F (lat2 - lat1);
          dlon = fl F (lon2 - lon1);
          a = fl F (f_pow F (f_sin F (fl F (dlat / 2))) 2
                    + fl F (fl F (f_cos F lat1 * f_cos F lat2)
                            * f_pow F (f_sin F (fl F (dlon / 2))) 2))
      in case math_sqrt a of
           Inl e \<Rightarrow> Inl e
         | Inr sa \<Rightarrow>
             (case math_sqrt (fl F (1 - a)) of
                Inl e \<Rightarrow> Inl e
              | Inr sb \<Rightarrow> Inr (R * (2 * atan2 sa sb))))"

subsection \<open>\<open>_interpolate_path\<close>\<close>

text \<open>
  One round of the loop: \<open>t = i / num_points\<close> raises \<open>ZeroDivisionError\<close> when
  \<open>num_points\<close> is 0; the two jitter values are drawn only for an interior index.
  Every operation on the coordinates is rounded by the arithmetic of the world.
\<close>

definition interpolate_point ::
  "'g rng_ops \<Rightarrow> coord \<Rightarrow> coord \<Rightarrow> int \<Rightarrow> int \<Rightarrow> 'g world \<Rightarrow> (error + coord) \<times> 'g world" where
  "interpolate_point R start_coords end_coords num_points i w =
     (if num_points = 0 then (Inl ZeroDivisionError, w)
      else
        let rd = fl (arith w);
            t = rd (real_of_int i / real_of_int num_points);
            lat = rd (fst start_coords + rd (t * rd (fst end_coords - fst start_coords)));
            lon = rd (snd start_coords + rd (t * rd (snd end_coords - snd start_coords)))
        in if 0 < i \<and> i < num_points
           then let (j1, w1) = random_uniform R (- 0.001) 0.001 w;
                    (j2, w2) = random_uniform R (- 0.001) 0.001 w1
                in (Inr (rd (lat + j1), rd (lon + j2)), w2)
           else (Inr (lat, lon), w))"

fun interpolate_loop ::
  "'g rng_ops \<Rightarrow> coord \<Rightarrow> coord \<Rightarrow> int \<Rightarrow> int list \<Rightarrow> coord list \<Rightarrow> 'g world
     \<Rightarrow> (error + coord list) \<times> 'g world" where
  "interpolate_loop R start_coords end_coords num_points [] path w = (Inr path, w)"
| "interpolate_loop R start_coords end_coords num_points (i # is) path w =
     (case interpolate_point R start_coords end_coords num_points i w of
        (Inl e, w') \<Rightarrow> (Inl e, w')
      | (Inr p, w') \<Rightarrow>
          interpolate_loop R start_coords end_coords num_points is (path @ [p]) w')"

definition interpolate_path ::
  "'g rng_ops \<Rightarrow> coord \<Rightarrow> coord \<Rightarrow> int \<Rightarrow> 'g world \<Rightarrow> (error + coord list) \<times> 'g world" where
  "interpolate_path R start_coords end_coords num_points w =
     interpolate_loop R start_coords end_coords num_points [0..num_points] [] w"

subsection \<open>\<open>_get_simulated_route\<close>\<close>

definition get_simulated_route ::
  "'g rng_ops \<Rightarrow> coord \<Rightarrow> coord \<Rightarrow> 'g world \<Rightarrow> (error + route) \<times> 'g world" where
  "get_simulated_route R start_coords end_coords w =
     (case haversine_distance (arith w) start_coords end_coords of
        Inl e \<Rightarrow> (Inl e, w)
      | Inr distance_km \<Rightarrow>
          let road_distance = distance_km * 1.3;
              duration_minutes = (road_distance / 40) * 60;
              num_waypoints = max 5 (py_int (distance_km * 2))
          in case interpolate_path R start_coords end_coords num_waypoints w of
               (Inl e, w') \<Rightarrow> (Inl e, w')
             | (Inr path, w') \<Rightarrow>
                 (Inr \<lparr>distance = py_round road_distance 2,
                       duration = py_round duration_minutes 1,
                       duration_in_traffic = Some (py_round (duration_minutes * 1.2) 1),
                       start_address = None,
                       end_address = None,
                       coordinates = path,
                       steps = [\<lparr>instruction = ''Head to emergency location'',
                                 step_distance = road_distance,
                                 step_duration = duration_minutes\<rparr>],
                       warnings = None,
                       service = ''simulated'',
                       simulated = Some True,
                       route_name = None\<rparr>, w'))"

subsection \<open>The provider adapters\<close>

text \<open>
  \<open>str.replace(old, '')\<close> for a non-empty \<open>old\<close>: every occurrence, found from the left
  and not overlapping, is removed.
\<close>

function remove_all :: "string \<Rightarrow> string \<Rightarrow> string" where
  "remove_all old s =
     (if s = [] \<or> old = [] then s
      else if take (length old) s = old then remove_all old (drop (length old) s)
      else hd s # remove_all old (tl s))"
  by pat_completeness auto
termination
  by (relation "measure (\<lambda>(old, s). length s)") auto

declare remove_all.simps [simp del]

definition extract_steps :: "google_step list \<Rightarrow> step list" where
  "extract_steps gsteps =
     map (\<lambda>st. \<lparr>instruction =
                   remove_all ''</b>''
                     (remove_all ''<b>''
                        (case html_instructions st of None \<Rightarrow> '''' | Some h \<Rightarrow> h)),
                 step_distance = gs_distance_value st / 1000,
                 step_duration = gs_duration_value st / 60\<rparr>) gsteps"

definition extract_openroute_steps :: "ors_segment list \<Rightarrow> step list" where
  "extract_openroute_steps segments =
     concat (map (\<lambda>segment.
        case seg_steps segment of
          None \<Rightarrow> []
        | Some ss \<Rightarrow>
            map (\<lambda>st. \<lparr>instruction =
                          (case os_instruction st of None \<Rightarrow> ''Continue'' | Some i \<Rightarrow> i),
                        step_distance = os_distance st / 1000,
                        step_duration = os_duration st / 60\<rparr>) ss) segments)"

text \<open>
  The part of \<open>_get_google_route\<close> that builds the route from the first route of the
  payload.  \<open>route['legs'][0]\<close> raises on an empty list and \<open>_decode_polyline\<close> raises
  on a truncated string; the caller's \<open>except\<close> catches both.
\<close>

definition google_route_data :: "google_route \<Rightarrow> error + route" where
  "google_route_data r =
     (case gr_legs r of
        [] \<Rightarrow> Inl IndexError
      | leg # _ \<Rightarrow>
          (case decode_polyline (gr_overview_polyline r) of
             Inl e \<Rightarrow> Inl e
           | Inr coords \<Rightarrow>
               Inr \<lparr>distance = gl_distance_value leg / 1000,
                    duration = gl_duration_value leg / 60,
                    duration_in_traffic =
                      Some ((case gl_duration_in_traffic_value leg of
                               None \<Rightarrow> gl_duration_value leg
                             | Some v \<Rightarrow> v) / 60),
                    start_address = Some (gl_start_address leg),
                    end_address = Some (gl_end_address leg),
                    coordinates = coords,
                    steps = extract_steps (gl_steps leg),
                    warnings = Some (case gr_warnings r of None \<Rightarrow> [] | Some ws \<Rightarrow> ws),
                    service = ''google'',
                    simulated = None,
                    route_name = None\<rparr>))"

text \<open>
  \<open>mode\<close> and \<open>optimize_for\<close> only shape the request that is sent; the reply is the
  world's.  Every failure path ends in \<open>_get_simulated_route\<close>.
\<close>

definition get_google_route ::
  "'g rng_ops \<Rightarrow> routing_api \<Rightarrow> coord \<Rightarrow> coord \<Rightarrow> string \<Rightarrow> string \<Rightarrow> 'g world
     \<Rightarrow> (error + route) \<times> 'g world" where
  "get_google_route R api start_coords end_coords mode optimize_for w =
     (let w1 = w\<lparr>requests := requests w + 1\<rparr>
      in case google_replies w (requests w) of
           RequestError \<Rightarrow> get_simulated_route R start_coords end_coords w1
         | Response status_code body \<Rightarrow>
             if status_code = 200 then
               (case body of
                  None \<Rightarrow> get_simulated_route R start_coords end_coords w1
                | Some data \<Rightarrow>
                    if gd_status data = ''OK'' \<and> gd_routes data \<noteq> [] then
                      (case google_route_data (hd (gd_routes data)) of
                         Inl e \<Rightarrow> get_simulated_route R start_coords end_coords w1
                       | Inr route_data \<Rightarrow> (Inr route_data, w1))
                    else get_simulated_route R start_coords end_coords w1)
             else get_simulated_route R start_coords end_coords w1)"

definition openroute_route_data :: "ors_route \<Rightarrow> route" where
  "openroute_route_data r =
     \<lparr>distance = or_summary_distance r / 1000,
      duration = or_summary_duration r / 60,
      duration_in_traffic = None,
      start_address = None,
      end_address = None,
      coordinates = map (\<lambda>c. (snd c, fst c)) (or_geometry_coordinates r),
      steps = extract_openroute_steps
                (case or_segments r of None \<Rightarrow> [] | Some segs \<Rightarrow> segs),
      warnings = None,
      service = ''openroute'',
      simulated = None,
      route_name = None\<rparr>"

definition get_openroute_route ::
  "'g rng_ops \<Rightarrow> routing_api \<Rightarrow> coord \<Rightarrow> coord \<Rightarrow> string \<Rightarrow> 'g world
     \<Rightarrow> (error + route) \<times> 'g world" where
  "get_openroute_route R api start_coords end_coords mode w =
     (let w1 = w\<lparr>requests := requests w + 1\<rparr>
      in case openroute_replies w (requests w) of
           RequestError \<Rightarrow> get_simulated_route R start_coords end_coords w1
         | Response status_code body \<Rightarrow>
             if status_code = 200 then
               (case body of
                  None \<Rightarrow> get_simulated_route R start_coords end_coords w1
                | Some data \<Rightarrow>
                    (case od_routes data of
                       Some (r # rs) \<Rightarrow> (Inr (openroute_route_data r), w1)
                     | _ \<Rightarrow> get_simulated_route R start_coords end_coords w1))
             else get_simulated_route R start_coords end_coords w1)"

subsection \<open>\<open>get_optimal_route\<close>\<close>

definition get_optimal_route ::
  "'g rng_ops \<Rightarrow> routing_api \<Rightarrow> coord \<Rightarrow> coord \<Rightarrow> string \<Rightarrow> string \<Rightarrow> 'g world
     \<Rightarrow> (error + route) \<times> 'g world" where
  "get_optimal_route R api start_coords end_coords mode optimize_for w =
     (let w0 = w\<lparr>route_log := route_log w @ [(start_coords, end_coords)]\<rparr>
      in if \<not> enabled api then get_simulated_route R start_coords end_coords w0
         else if api_service api = ''google''
         then get_google_route R api start_coords end_coords mode optimize_for w0
         else if api_service api = ''openroute''
         then get_openroute_route R api start_coords end_coords mode w0
         else get_simulated_route R start_coords end_coords w0)"

subsection \<open>\<open>get_multiple_routes\<close>\<close>

text \<open>The decimal text of a non-negative integer, for \<open>f"Alternative {i}"\<close>.\<close>

fun str_nat :: "nat \<Rightarrow> string" where
  "str_nat n =
     (if n < 10 then [char_of (48 + n)]
      else str_nat (n div 10) @ [char_of (48 + n mod 10)])"

declare str_nat.simps [simp del]

definition str_int :: "int \<Rightarrow> string" where
  "str_int i = (if i < 0 then CHR ''-'' # str_nat (nat (- i)) else str_nat (nat i))"

definition alternative_route :: "route \<Rightarrow> int \<Rightarrow> route" where
  "alternative_route primary_route i =
     primary_route
       \<lparr>distance := distance primary_route * (1 + real_of_int i * 0.1),
        duration := duration primary_route * (1 + real_of_int i * 0.15),
        route_name := Some (''Alternative '' @ str_int i)\<rparr>"

definition get_multiple_routes ::
  "'g rng_ops \<Rightarrow> routing_api \<Rightarrow> coord \<Rightarrow> coord \<Rightarrow> int \<Rightarrow> 'g world
     \<Rightarrow> (error + route list) \<times> 'g world" where
  "get_multiple_routes R api start_coords end_coords num_alternatives w =
     (case get_optimal_route R api start_coords end_coords ''driving'' ''time'' w of
        (Inl e, w') \<Rightarrow> (Inl e, w')
      | (Inr primary_route, w') \<Rightarrow>
          if simulated primary_route = Some True
          then (Inr ([primary_route]
                       @ map (alternative_route primary_route) [1..num_alternatives - 1]), w')
          else (Inr [primary_route], w'))"

subsection \<open>\<open>calculate_eta\<close> and \<open>find_nearest_responder\<close>\<close>

text \<open>
  A \<open>datetime\<close> is its number of microseconds since 0001-01-01 00:00:00, a \<open>timedelta\<close>
  its number of microseconds.  \<open>timedelta(minutes=m)\<close> rounds to the microsecond, a tie
  going to the even neighbour, and raises \<open>OverflowError\<close> unless the result has between
  \<open>-999999999\<close> and \<open>999999999\<close> days.  Adding it to a \<open>datetime\<close> raises \<open>OverflowError\<close>
  unless the sum lies in the years 1 to 9999, which have 3652059 days.  The two
  renderings of the arrival time as text (\<open>isoformat\<close>, \<open>strftime\<close>) are one field holding
  the time itself.
\<close>

definition timedelta_minutes :: "real \<Rightarrow> error + int" where
  "timedelta_minutes m =
     (let us = round_half_even (m * 60000000)
      in if us < - 999999999 * 86400000000 \<or> 1000000000 * 86400000000 \<le> us
         then Inl OverflowError else Inr us)"

definition datetime_add :: "int \<Rightarrow> int \<Rightarrow> error + int" where
  "datetime_add t delta =
     (if t + delta < 0 \<or> 3652059 * 86400000000 \<le> t + delta
      then Inl OverflowError else Inr (t + delta))"

record eta_info =
  eta :: int
  duration_minutes :: real
  distance_km :: real

definition calculate_eta :: "route \<Rightarrow> int option \<Rightarrow> 'g world \<Rightarrow> error + eta_info" where
  "calculate_eta route_data current_time w =
     (let now = (case current_time of None \<Rightarrow> clock w | Some t \<Rightarrow> t);
          d = (case duration_in_traffic route_data of
                 Some dt \<Rightarrow> dt
               | None \<Rightarrow> duration route_data)
      in case timedelta_minutes d of
           Inl e \<Rightarrow> Inl e
         | Inr delta \<Rightarrow>
             (case datetime_add now delta of
                Inl e \<Rightarrow> Inl e
              | Inr t \<Rightarrow>
                  Inr \<lparr>eta = t, duration_minutes = d, distance_km = distance route_data\<rparr>))"

record nearest =
  responder_id :: nat
  nearest_coordinates :: coord
  nearest_distance :: real
  nearest_duration :: real
  nearest_route :: "route option"
  nearest_eta :: "eta_info option"

text \<open>
  The state of the loop: \<open>nearest\<close>, \<open>min_distance\<close> (\<open>None\<close> is \<open>float('inf')\<close>) and
  \<open>best_route\<close>.  The list is the rest of \<open>enumerate(responder_locations)\<close>.  After the
  loop, \<open>calculate_eta(None)\<close> would raise \<open>AttributeError\<close>; an exception of
  \<open>calculate_eta\<close> is not caught.
\<close>

fun nearest_loop ::
  "'g rng_ops \<Rightarrow> routing_api \<Rightarrow> coord \<Rightarrow> (nat \<times> coord) list
     \<Rightarrow> nearest option \<Rightarrow> real option \<Rightarrow> route option \<Rightarrow> 'g world
     \<Rightarrow> (error + (nearest option \<times> route option)) \<times> 'g world" where
  "nearest_loop R api emergency_coords [] nrst min_distance best_route w =
     (Inr (nrst, best_route), w)"
| "nearest_loop R api emergency_coords ((i, responder_coords) # rest) nrst min_distance
     best_route w =
     (case get_optimal_route R api responder_coords emergency_coords ''driving'' ''time'' w of
        (Inl e, w') \<Rightarrow> (Inl e, w')
      | (Inr r, w') \<Rightarrow>
          if (case min_distance of None \<Rightarrow> True | Some m \<Rightarrow> distance r < m)
          then nearest_loop R api emergency_coords rest
                 (Some \<lparr>responder_id = i, nearest_coordinates = responder_coords,
                        nearest_distance = distance r, nearest_duration = duration r,
                        nearest_route = None, nearest_eta = None\<rparr>)
                 (Some (distance r)) (Some r) w'
          else nearest_loop R api emergency_coords rest nrst min_distance best_route w')"

definition find_nearest_responder ::
  "'g rng_ops \<Rightarrow> routing_api \<Rightarrow> coord \<Rightarrow> coord list \<Rightarrow> 'g world
     \<Rightarrow> (error + nearest option) \<times> 'g world" where
  "find_nearest_responder R api emergency_coords responder_locations w =
     (case nearest_loop R api emergency_coords
             (zip [0..<length responder_locations] responder_locations) None None None w of
        (Inl e, w') \<Rightarrow> (Inl e, w')
      | (Inr (None, best_route), w') \<Rightarrow> (Inr None, w')
      | (Inr (Some n, best_route), w') \<Rightarrow>
          (case best_route of
             None \<Rightarrow> (Inl AttributeError, w')
           | Some b \<Rightarrow>
               (case calculate_eta b None w' of
                  Inl e \<Rightarrow> (Inl e, w')
                | Inr et \<Rightarrow>
                    (Inr (Some (n\<lparr>nearest_route := Some b, nearest_eta := Some et\<rparr>)),
                     w'))))"

section \<open>Auxiliary notions for the statements\<close>

text \<open>
  The point of the linear interpolation at index \<open>i\<close> of \<open>n\<close> as the arithmetic \<open>F\<close>
  computes it, \<open>a + (i / n) * (b - a)\<close> with every operation rounded, and the point of the
  exact linear interpolation.
\<close>

definition float_point :: "float_arith \<Rightarrow> coord \<Rightarrow> coord \<Rightarrow> int \<Rightarrow> int \<Rightarrow> coord" where
  "float_point F a b n i =
     (fl F (fst a + fl F (fl F (real_of_int i / real_of_int n) * fl F (fst b - fst a))),
      fl F (snd a + fl F (fl F (real_of_int i / real_of_int n) * fl F (snd b - snd a))))"

definition linear_point :: "coord \<Rightarrow> coord \<Rightarrow> int \<Rightarrow> int \<Rightarrow> coord" where
  "linear_point a b n i =
     (fst a + (real_of_int i / real_of_int n) * (fst b - fst a),
      snd a + (real_of_int i / real_of_int n) * (snd b - snd a))"

text \<open>
  What \<open>_interpolate_path\<close> makes of the index \<open>i\<close>: an interior point is the rounded sum
  of the interpolation point and a jitter of at most 0.001 in each coordinate, an end
  point is the interpolation point itself.
\<close>

definition jittered :: "float_arith \<Rightarrow> coord \<Rightarrow> coord \<Rightarrow> int \<Rightarrow> int \<Rightarrow> coord \<Rightarrow> bool" where
  "jittered F a b n i p =
     (if 0 < i \<and> i < n
      then \<exists>j1 j2. \<bar>j1\<bar> \<le> 0.001 \<and> \<bar>j2\<bar> \<le> 0.001 \<and>
             p = (fl F (fst (float_point F a b n i) + j1),
                  fl F (snd (float_point F a b n i) + j2))
      else p = float_point F a b n i)"

text \<open>
  Rounding to the nearest double, a tie going to the even significand, for the numbers
  in the range of the normal doubles (no underflow, no overflow): \<open>u\<close> is the distance
  between the doubles around \<open>x\<close>.  In \<open>binary64_arith\<close> the functions of the \<open>math\<close>
  module are taken as correctly rounded.
\<close>

definition binary64_round :: "real \<Rightarrow> real" where
  "binary64_round x =
     (if x = 0 then 0
      else let u = 2 powr (of_int \<lfloor>log 2 \<bar>x\<bar>\<rfloor> - 52)
           in of_int (round_half_even (x / u)) * u)"

definition binary64_arith :: float_arith where
  "binary64_arith =
     \<lparr>fl = binary64_round,
      f_radians = (\<lambda>x. binary64_round (radians x)),
      f_sin = (\<lambda>x. binary64_round (sin x)),
      f_cos = (\<lambda>x. binary64_round (cos x)),
      f_pow = (\<lambda>x n. binary64_round (x ^ n))\<rparr>"


text \<open>
  A generator and a world on which the functions can be evaluated: every
  \<open>random.random()\<close> is \<open>1/2\<close>, every request fails, the clock shows
  2024-01-01 00:00:00 (738885 days after 0001-01-01), the arithmetic is exact.
  \<open>binary64_world\<close> is the same world with double arithmetic.
\<close>

definition example_rng :: "nat rng_ops" where
  "example_rng = \<lparr>seed_op = (\<lambda>s. 0), random_op = (\<lambda>g. (1 / 2, g + 1)),
                   randbelow_op = (\<lambda>n g. (0, g + 1))\<rparr>"

definition example_world :: "nat world" where
  "example_world = \<lparr>rng = 0, google_replies = (\<lambda>n. RequestError),
                     openroute_replies = (\<lambda>n. RequestError), requests = 0,
                     route_log = [], clock = 738885 * 86400000000,
                     arith = exact_arith\<rparr>"

definition binary64_world :: "nat world" where
  "binary64_world = example_world\<lparr>arith := binary64_arith\<rparr>"

text \<open>
  The doubles that Python reads from \<open>(40.7589, -73.9851)\<close> and from
  \<open>(6.5244, 3.3792)\<close>.
\<close>

definition new_york :: coord where
  "new_york = (2868152607062989 / 2 ^ 46, - 5206238574858889 / 2 ^ 46)"

definition lagos :: coord where
  "lagos = (459113834512751 / 2 ^ 46, 3804640965202595 / 2 ^ 50)"

text \<open>
  Two worlds that differ at most in the state of the random generator.
\<close>

definition same_outside_rng :: "'g world \<Rightarrow> 'g world \<Rightarrow> bool" where
  "same_outside_rng w w' =
     (route_log w' = route_log w \<and> requests w' = requests w \<and> clock w' = clock w \<and>
      arith w' = arith w \<and>
      google_replies w' = google_replies w \<and> openroute_replies w' = openroute_replies w)"

text \<open>
  What the adapter of the configured service extracts from the reply to the next
  request, if the service is enabled and the reply is usable; \<open>None\<close> is every failure
  of the provider (request error, status other than 200, unusable body, no route).
\<close>

definition google_adapter_result :: "google_data reply \<Rightarrow> route option" where
  "google_adapter_result rep =
     (case rep of
        RequestError \<Rightarrow> None
      | Response status_code body \<Rightarrow>
          (case body of
             None \<Rightarrow> None
           | Some data \<Rightarrow>
               if status_code = 200 \<and> gd_status data = ''OK'' \<and> gd_routes data \<noteq> []
               then (case google_route_data (hd (gd_routes data)) of
                       Inl e \<Rightarrow> None | Inr r \<Rightarrow> Some r)
               else None))"

definition openroute_adapter_result :: "ors_data reply \<Rightarrow> route option" where
  "openroute_adapter_result rep =
     (case rep of
        RequestError \<Rightarrow> None
      | Response status_code body \<Rightarrow>
          (case body of
             None \<Rightarrow> None
           | Some data \<Rightarrow>
               if status_code = 200
               then (case od_routes data of
                       Some (r # rs) \<Rightarrow> Some (openroute_route_data r) | _ \<Rightarrow> None)
               else None))"

definition provider_route :: "routing_api \<Rightarrow> 'g world \<Rightarrow> route option" where
  "provider_route api w =
     (if \<not> enabled api then None
      else if api_service api = ''google''
      then google_adapter_result (google_replies w (requests w))
      else if api_service api = ''openroute''
      then openroute_adapter_result (openroute_replies w (requests w))
      else None)"








definition offline_api :: routing_api where
  "offline_api = RoutingAPI_init Map.empty ''google'' None"






section \<open>Geocoding (\<open>GeocodingAPI\<close>)\<close>





definition dict_get :: "('k \<rightharpoonup> 'v) \<Rightarrow> 'k \<Rightarrow> 'v \<Rightarrow> 'v" where
  "dict_get d k dflt = (case d k of Some v \<Rightarrow> v | None \<Rightarrow> dflt)"



record google_geo_hit =
  gg_lat :: real
  gg_lng :: real
  gg_formatted_address :: string
  gg_address_components :: "(string \<times> string) list"

record google_geo_data =
  ggd_status :: string
  ggd_results :: "google_geo_hit list"

record opencage_hit =
  oc_lat :: real
  oc_lng :: real
  oc_formatted :: string
  oc_components :: "string \<rightharpoonup> string"
  oc_confidence :: "int option"

record opencage_data =
  ocd_results :: "opencage_hit list"

record nominatim_hit =
  nm_lat :: real
  nm_lon :: real
  nm_display_name :: "string option"
  nm_address :: "(string \<rightharpoonup> string) option"

text \<open>
  The world of one \<open>geocode\<close> or \<open>reverse_geocode\<close> call: the reply each service gives to
  the request of that call, and the time \<open>time.time()\<close> shows.  \<open>time.sleep\<close> moves the
  time on by the time slept.  Nominatim answers a search with a list of places and a
  reverse request with one place.
\<close>

record geo_world =
  geo_google_reply :: "google_geo_data reply"
  geo_opencage_reply :: "opencage_data reply"
  geo_nominatim_reply :: "nominatim_hit list reply"
  geo_nominatim_reverse_reply :: "nominatim_hit reply"
  geo_time :: real

record geocoding_api =
  google_key :: "string option"
  opencage_key :: "string option"
  google_enabled :: bool
  opencage_enabled :: bool
  nominatim_enabled :: bool
  last_request_time :: real
  min_request_interval :: real

definition GeocodingAPI_init ::
  "(string \<rightharpoonup> string) \<Rightarrow> string option \<Rightarrow> string option \<Rightarrow> geocoding_api" where
  "GeocodingAPI_init env gkey okey =
     (let gk = py_or gkey (Some (getenv env ''GOOGLE_GEOCODING_API_KEY''
                                   ''YOUR_GOOGLE_GEOCODING_API_KEY_HERE''));
          ok = py_or okey (Some (getenv env ''OPENCAGE_API_KEY''
                                   ''YOUR_OPENCAGE_API_KEY_HERE''))
      in \<lparr>google_key = gk, opencage_key = ok,
          google_enabled =
            (gk \<notin> {Some ''YOUR_GOOGLE_GEOCODING_API_KEY_HERE'', None, Some ''''}),
          opencage_enabled = (ok \<notin> {Some ''YOUR_OPENCAGE_API_KEY_HERE'', None, Some ''''}),
          nominatim_enabled = True,
          last_request_time = 0,
          min_request_interval = 1\<rparr>)"

text \<open>
  What a call of one of the three adapter functions does: it raises, or it returns
  \<open>None\<close> or a dictionary.
\<close>

datatype 'a outcome = Raised | Returned "'a option"




definition rate_limit :: "geocoding_api \<Rightarrow> geo_world \<Rightarrow> geocoding_api \<times> geo_world" where
  "rate_limit api w =
     (let current_time = geo_time w;
          time_since_last_request = current_time - last_request_time api;
          w' = (if time_since_last_request < min_request_interval api
                then w\<lparr>geo_time :=
                         geo_time w + (min_request_interval api - time_since_last_request)\<rparr>
                else w)
      in (api\<lparr>last_request_time := geo_time w'\<rparr>, w'))"





subsection \<open>\<open>reverse_geocode\<close>\<close>

record reverse_result =
  rev_formatted_address :: string
  rev_city :: string
  rev_country :: string

definition reverse_geocode_nominatim ::
  "geocoding_api \<Rightarrow> real \<Rightarrow> real \<Rightarrow> geo_world \<Rightarrow> reverse_result outcome" where
  "reverse_geocode_nominatim api lat lon w =
     (case geo_nominatim_reverse_reply w of
        RequestError \<Rightarrow> Raised
      | Response status_code body \<Rightarrow>
          if status_code = 200 then
            (case body of
               None \<Rightarrow> Raised
             | Some data \<Rightarrow>
                 (let address = (case nm_address data of None \<Rightarrow> Map.empty | Some a \<Rightarrow> a)
                  in Returned (Some
                       \<lparr>rev_formatted_address =
                          (case nm_display_name data of None \<Rightarrow> '''' | Some n \<Rightarrow> n),
                        rev_city = dict_get address ''city'' (dict_get address ''town'' ''''),
                        rev_country = dict_get address ''country'' ''''\<rparr>)))
          else Returned None)"

definition reverse_geocode_google ::
  "geocoding_api \<Rightarrow> real \<Rightarrow> real \<Rightarrow> geo_world \<Rightarrow> reverse_result outcome" where
  "reverse_geocode_google api lat lon w =
     (case geo_google_reply w of
        RequestError \<Rightarrow> Raised
      | Response status_code body \<Rightarrow>
          if status_code = 200 then
            (case body of
               None \<Rightarrow> Raised
             | Some data \<Rightarrow>
                 if ggd_status data = ''OK'' \<and> ggd_results data \<noteq> [] then
                   (let result = hd (ggd_results data);
                        address_components = map_of (rev (gg_address_components result))
                    in Returned (Some
                         \<lparr>rev_formatted_address = gg_formatted_address result,
                          rev_city = dict_get address_components ''locality'' '''',
                          rev_country = dict_get address_components ''country'' ''''\<rparr>))
                 else Returned None)
          else Returned None)"

definition reverse_geocode_opencage ::
  "geocoding_api \<Rightarrow> real \<Rightarrow> real \<Rightarrow> geo_world \<Rightarrow> reverse_result outcome" where
  "reverse_geocode_opencage api lat lon w =
     (case geo_opencage_reply w of
        RequestError \<Rightarrow> Raised
      | Response status_code body \<Rightarrow>
          if status_code = 200 then
            (case body of
               None \<Rightarrow> Raised
             | Some data \<Rightarrow>
                 (case ocd_results data of
                    [] \<Rightarrow> Returned None
                  | result # others \<Rightarrow>
                      Returned (Some
                        \<lparr>rev_formatted_address = oc_formatted result,
                         rev_city = dict_get (oc_components result) ''city''
                                      (dict_get (oc_components result) ''town'' ''''),
                         rev_country = dict_get (oc_components result) ''country'' ''''\<rparr>)))
          else Returned None)"

text \<open>
  \<open>reverse_geocode\<close> has no loop: each enabled adapter is called inside
  \<open>try: return ... except: pass\<close>, Nominatim without a test of \<open>nominatim_enabled\<close>.  So
  what the first adapter that does not raise returns is the result, \<open>None\<close> too.
\<close>

definition reverse_geocode ::
  "geocoding_api \<Rightarrow> real \<Rightarrow> real \<Rightarrow> geo_world
     \<Rightarrow> reverse_result option \<times> geocoding_api \<times> geo_world" where
  "reverse_geocode api lat lon w =
     (let (api', w') = rate_limit api w;
          from_nominatim =
            (case reverse_geocode_nominatim api' lat lon w' of
               Returned x \<Rightarrow> x
             | Raised \<Rightarrow> None);
          from_opencage =
            (if opencage_enabled api'
             then (case reverse_geocode_opencage api' lat lon w' of
                     Returned x \<Rightarrow> x
                   | Raised \<Rightarrow> from_nominatim)
             else from_nominatim)
      in (if google_enabled api'
          then (case reverse_geocode_google api' lat lon w' of
                  Returned x \<Rightarrow> x
                | Raised \<Rightarrow> from_opencage)
          else from_opencage, api', w'))"






text \<open>
  A geocoder with a Google key, and a world in which only Nominatim answers; a world
  in which Google answers a reverse request with no result and Nominatim with a place.
\<close>

definition google_geocoder :: geocoding_api where
  "google_geocoder = GeocodingAPI_init Map.empty (Some ''key'') None"

definition lagos_hit :: nominatim_hit where
  "lagos_hit = \<lparr>nm_lat = 6.45, nm_lon = 3.39, nm_display_name = Some ''Lagos'',
                 nm_address = None\<rparr>"

definition nominatim_only_world :: geo_world where
  "nominatim_only_world =
     \<lparr>geo_google_reply = RequestError, geo_opencage_reply = RequestError,
      geo_nominatim_reply = Response 200 (Some [lagos_hit]),
      geo_nominatim_reverse_reply = Response 200 (Some lagos_hit), geo_time = 0\<rparr>"

definition google_empty_world :: geo_world where
  "google_empty_world =
     nominatim_only_world
       \<lparr>geo_google_reply := Response 200 (Some \<lparr>ggd_status = ''ZERO_RESULTS'',
                                                   ggd_results = []\<rparr>)\<rparr>"

section \<open>Simulated weather (\<open>WeatherAPI._get_simulated_weather\<close>)\<close>









section \<open>Properties of the polyline decoder\<close>

lemma decode_loop_Nil: "decode_loop [] lat lng acc = Inr acc"
  by (subst decode_loop.simps) simp

lemma encode_chunks_cont:
  "32 \<le> v \<Longrightarrow>
     encode_chunks v = ((32 OR (v AND 31)) + 63) # encode_chunks (drop_bit 5 v)"
  by (subst encode_chunks.simps) simp

lemma encode_chunks_last: "\<not> 32 \<le> v \<Longrightarrow> encode_chunks v = [v + 63]"
  by (subst encode_chunks.simps) simp

lemma unzigzag_zigzag: "unzigzag (zigzag v) = v"
proof (cases "v < 0")
  case True
  have "(- (v * 2) - 1) mod 2 = 1" "(- (v * 2) - 1) div 2 = - v - 1"
    by presburger+
  with True show ?thesis
    by (simp add: unzigzag_def zigzag_def and_one_eq not_int_def push_bit_eq_mult
        drop_bit_eq_div)
next
  case False
  then show ?thesis
    by (simp add: unzigzag_def zigzag_def and_one_eq push_bit_eq_mult drop_bit_eq_div)
qed

lemma zigzag_nonneg: "0 \<le> zigzag v"
  unfolding zigzag_def by simp

lemma and_31: "v AND 31 = take_bit 5 (v::int)"
  by (simp add: take_bit_eq_mask mask_eq_exp_minus_1)

lemma low_high_chunks: "(v AND 31) OR push_bit 5 (drop_bit 5 v) = (v::int)"
proof -
  have "take_bit 5 v OR push_bit 5 (drop_bit 5 v) = v"
  proof (rule bit_eqI)
    fix n
    show "bit (take_bit 5 v OR push_bit 5 (drop_bit 5 v)) n = bit v n"
    proof (cases "n < 5")
      case True
      then show ?thesis
        by (simp add: bit_or_iff bit_take_bit_iff bit_push_bit_iff)
    next
      case False
      then have "5 + (n - 5) = n" by simp
      with False show ?thesis
        by (simp add: bit_or_iff bit_take_bit_iff bit_push_bit_iff bit_drop_bit_eq)
    qed
  qed
  then show ?thesis by (simp only: and_31)
qed

lemma continuation_low: "(32 OR (v AND 31)) AND 31 = v AND (31::int)"
proof -
  have "take_bit 5 (32 OR take_bit 5 v) = take_bit 5 (v::int)"
    by (simp add: take_bit_or)
  then show ?thesis by (simp only: and_31)
qed

lemma continuation_ge: "(32::int) \<le> 32 OR (v AND 31)"
  by (rule or_greater_eq) simp

lemma last_chunk_and: "0 \<le> v \<Longrightarrow> v < 32 \<Longrightarrow> v AND 31 = (v::int)"
  by (simp only: and_31) (simp add: take_bit_int_eq_self)

lemma accumulate_chunks:
  "(result OR push_bit shift (v AND 31)) OR push_bit (shift + 5) (drop_bit 5 v)
     = result OR push_bit shift (v::int)"
proof -
  have "push_bit shift (v AND 31) OR push_bit (shift + 5) (drop_bit 5 v)
          = push_bit shift ((v AND 31) OR push_bit 5 (drop_bit 5 v))"
    by (simp add: push_bit_or push_bit_push_bit add.commute)
  then show ?thesis by (simp add: low_high_chunks or.assoc)
qed

lemma read_chunks_encode_chunks:
  "0 \<le> v \<Longrightarrow>
     read_chunks (encode_chunks v @ rest) shift result = Inr (result OR push_bit shift v, rest)"
proof (induction v arbitrary: shift result rule: encode_chunks.induct)
  case (1 v)
  show ?case
  proof (cases "v \<ge> 0x20")
    case True
    have nn: "0 \<le> drop_bit 5 v" using "1.prems" by simp
    have nlt: "\<not> (32 OR (v AND 31)) < (32::int)" using continuation_ge [of v] by simp
    have "read_chunks (encode_chunks v @ rest) shift result
            = read_chunks (encode_chunks (drop_bit 5 v) @ rest) (shift + 5)
                (result OR push_bit shift (v AND 31))"
      using True nlt
      by (simp add: encode_chunks_cont continuation_low del: push_bit_and push_bit_or)
    also have "\<dots> = Inr ((result OR push_bit shift (v AND 31))
                          OR push_bit (shift + 5) (drop_bit 5 v), rest)"
      using "1.IH" [OF True nn] .
    finally show ?thesis by (simp only: accumulate_chunks)
  next
    case False
    then show ?thesis using "1.prems"
      by (simp add: encode_chunks_last last_chunk_and del: push_bit_and)
  qed
qed

lemma read_chunks_encode_value:
  "read_chunks (encode_value v @ rest) 0 0 = Inr (zigzag v, rest)"
  by (simp add: encode_value_def read_chunks_encode_chunks zigzag_nonneg)

lemma encode_chunks_nonempty: "encode_chunks v \<noteq> []"
  by (subst encode_chunks.simps) simp

lemma decode_loop_encode_points:
  "decode_loop (encode_points (plat, plng) ps) plat plng acc
     = Inr (acc @ map (\<lambda>(a, b). (real_of_int a / 100000, real_of_int b / 100000)) ps)"
proof (induction ps arbitrary: plat plng acc)
  case Nil
  show ?case by (subst decode_loop.simps) simp
next
  case (Cons p ps)
  obtain lat lng where p: "p = (lat, lng)" by (cases p)
  have ne: "encode_value (lat - plat) @ encode_value (lng - plng)
              @ encode_points (lat, lng) ps \<noteq> []"
    by (simp add: encode_value_def encode_chunks_nonempty)
  show ?case
    unfolding p
    by (subst decode_loop.simps)
      (simp add: ne read_chunks_encode_value unzigzag_zigzag Cons.IH
        del: append_is_Nil_conv)
qed

lemma encode_chunks_range:
  "0 \<le> v \<Longrightarrow> c \<in> set (encode_chunks v) \<Longrightarrow> 0 \<le> c \<and> c < 256"
proof (induction v rule: encode_chunks.induct)
  case (1 v)
  show ?case
  proof (cases "v \<ge> 0x20")
    case True
    have "(32 OR (v AND 31)) + (32 AND (v AND 31)) = 32 + (v AND 31)"
      by (metis plus_and_or add.commute)
    moreover have "0 \<le> 32 AND (v AND 31)" by simp
    moreover have "v AND 31 < 32"
      using take_bit_int_less_exp [of 5 v] by (simp only: and_31) simp
    moreover have "0 \<le> 32 OR (v AND 31)" by simp
    ultimately have b: "0 \<le> (32 OR (v AND 31)) + 63 \<and> (32 OR (v AND 31)) + 63 < 256"
      by linarith
    have nn: "0 \<le> drop_bit 5 v" using "1.prems" by simp
    from "1.prems"(2) True have "c = (32 OR (v AND 31)) + 63 \<or> c \<in> set (encode_chunks (drop_bit 5 v))"
      by (simp add: encode_chunks_cont)
    then show ?thesis using b "1.IH" [OF True nn] by blast
  next
    case False
    then show ?thesis using "1.prems" by (simp add: encode_chunks_last)
  qed
qed

lemma ord_chr: "0 \<le> c \<Longrightarrow> c < 256 \<Longrightarrow> ord (chr c) = c"
  by (simp add: ord_def chr_def)

lemma encode_points_range:
  "c \<in> set (encode_points prev ps) \<Longrightarrow> 0 \<le> c \<and> c < 256"
proof (induction prev ps rule: encode_points.induct)
  case (1 prev)
  then show ?case by simp
next
  case (2 plat plng lat lng ps)
  then show ?case
    using encode_chunks_range [OF zigzag_nonneg]
    by (auto simp: encode_value_def)
qed

lemma map_ord_chr: "(\<And>c. c \<in> set cs \<Longrightarrow> 0 \<le> c \<and> c < 256) \<Longrightarrow> map ord (map chr cs) = cs"
  by (induction cs) (simp_all add: ord_chr)

lemma decode_polyline_encode_polyline:
  "decode_polyline (encode_polyline pts)
     = Inr (map (\<lambda>p. (real_of_int (round (fst p * 100000)) / 100000,
                        real_of_int (round (snd p * 100000)) / 100000)) pts)"
proof -
  have "map ord (encode_polyline pts) = encode_points (0, 0) (map e5 pts)"
    unfolding encode_polyline_def by (rule map_ord_chr) (rule encode_points_range)
  then show ?thesis
    by (simp add: decode_polyline_def decode_loop_encode_points e5_def comp_def)
qed

lemma round_e5_close: "\<bar>real_of_int (round (x * 100000)) / 100000 - x\<bar> \<le> 1 / 100000"
proof -
  define r where "r = real_of_int (round (x * 100000))"
  have "\<bar>r - x * 100000\<bar> \<le> 1 / 2"
    unfolding r_def by (rule of_int_round_abs_le)
  then have "- (1 / 2) \<le> r - x * 100000" "r - x * 100000 \<le> 1 / 2"
    by linarith+
  then have "- (1 / 100000) \<le> r / 100000 - x" "r / 100000 - x \<le> 1 / 100000"
    by linarith+
  then show ?thesis
    unfolding r_def by linarith
qed

lemma reference_encoding:
  "encode_polyline [(38.5, -120.2), (40.7, -120.95), (43.252, -126.453)]
     = ''_p~iF~ps|U_ulLnnqC_mqNvxq`@''"
  unfolding encode_polyline_def
  by (simp add: e5_def encode_value_def zigzag_def encode_chunks.simps chr_def char_of_def)

lemma reference_decoding:
  "decode_polyline ''_p~iF~ps|U_ulLnnqC_mqNvxq`@''
     = Inr [(38.5, -120.2), (40.7, -120.95), (43.252, -126.453)]"
  unfolding decode_polyline_def
  by (simp add: decode_loop.simps ord_def unzigzag_def Let_def)

lemma decoded_close:
  "list_all2 (\<lambda>p q. \<bar>fst q - fst p\<bar> \<le> 1 / 100000 \<and> \<bar>snd q - snd p\<bar> \<le> 1 / 100000) pts
     (map (\<lambda>p. (real_of_int (round (fst p * 100000)) / 100000,
                   real_of_int (round (snd p * 100000)) / 100000)) pts)"
proof (induction pts)
  case Nil
  show ?case by simp
next
  case (Cons p pts)
  then show ?case
    using round_e5_close [of "fst p"] round_e5_close [of "snd p"] by simp
qed

text \<open>
  Claim C2.  Decoding the encoding that the published algorithm produces for any
  coordinate sequence returns (normally) a sequence of the same length whose points are
  within \<open>1e-5\<close> of the original ones in latitude and in longitude; and the reference
  string of the format decodes to the three published points.
\<close>

theorem decode_polyline_roundtrip:
  "(\<exists>pts'. decode_polyline (encode_polyline pts) = Inr pts' \<and>
      list_all2 (\<lambda>p q. \<bar>fst q - fst p\<bar> \<le> 1 / 100000 \<and> \<bar>snd q - snd p\<bar> \<le> 1 / 100000)
        pts pts') \<and>
   decode_polyline ''_p~iF~ps|U_ulLnnqC_mqNvxq`@''
     = Inr [(38.5, -120.2), (40.7, -120.95), (43.252, -126.453)]"
  using decode_polyline_encode_polyline [of pts] decoded_close [of pts] reference_decoding
  by simp

text \<open>
  Claim C10.  Decoding the empty string returns the empty coordinate sequence: the
  result is a normal return (\<open>Inr\<close>), not an exception.
\<close>

theorem decode_polyline_empty: "decode_polyline [] = Inr []"
  unfolding decode_polyline_def by (simp add: decode_loop_Nil)

section \<open>Properties of the geometry functions\<close>

lemma haversine_a_bounds:
  fixes p1 p2 dl :: real
  defines "a \<equiv> (sin ((p2 - p1) / 2))\<^sup>2 + cos p1 * cos p2 * (sin (dl / 2))\<^sup>2"
  shows "0 \<le> a" and "a \<le> 1"
proof -
  define s where "s = (sin (dl / 2))\<^sup>2"
  have s0: "0 \<le> s" and s1: "s \<le> 1"
    unfolding s_def by (simp_all add: abs_square_le_1)
  have h1: "(sin ((p2 - p1) / 2))\<^sup>2 = (1 - cos (p2 - p1)) / 2"
  proof -
    define h where "h = (p2 - p1) / 2"
    have "p2 - p1 = 2 * h" by (simp add: h_def)
    then have "cos (p2 - p1) = 1 - 2 * (sin h)\<^sup>2"
      by (simp only: cos_double_sin)
    then show ?thesis by (simp add: h_def)
  qed
  have h2: "cos p1 * cos p2 = (cos (p1 - p2) + cos (p1 + p2)) / 2"
    by (rule cos_times_cos)
  have h3: "cos (p1 - p2) = cos (p2 - p1)"
    using cos_minus [of "p1 - p2"] by simp
  define c where "c = cos (p2 - p1)"
  define e where "e = cos (p1 + p2)"
  have c: "- 1 \<le> c" "c \<le> 1" and e: "- 1 \<le> e" "e \<le> 1"
    unfolding c_def e_def by simp_all
  have a_eq: "a = (1 - c) / 2 + (c + e) / 2 * s"
    unfolding a_def h1 h2 h3 s_def c_def e_def by simp
  define t where "t = s * c"
  define u where "u = s * e"
  have "(1 - s) * c \<le> (1 - s) * 1" using s1 c by (intro mult_left_mono) simp_all
  then have f1: "c - t \<le> 1 - s" by (simp add: t_def algebra_simps)
  have "(1 - s) * (- 1) \<le> (1 - s) * c" using s1 c by (intro mult_left_mono) simp_all
  then have f2: "s - 1 \<le> c - t" by (simp add: t_def algebra_simps)
  have "s * (- 1) \<le> s * e" using s0 e by (intro mult_left_mono) simp_all
  then have f3: "- s \<le> u" by (simp add: u_def)
  have "s * e \<le> s * 1" using s0 e by (intro mult_left_mono) simp_all
  then have f4: "u \<le> s" by (simp add: u_def)
  have "a = (1 - c) / 2 + (c * s + e * s) / 2"
    unfolding a_eq by (simp add: algebra_simps)
  then have a2: "a = (1 - c + t + u) / 2"
    by (simp add: t_def u_def field_simps)
  show "0 \<le> a" using f1 f3 unfolding a2 by simp
  show "a \<le> 1" using f2 f4 unfolding a2 by simp
qed

lemma atan2_nonneg: "0 \<le> y \<Longrightarrow> 0 \<le> x \<Longrightarrow> 0 \<le> atan2 y x"
  by (auto simp: atan2_def)

text \<open>
  \<open>_haversine_distance\<close> returns a distance that is not negative, or one of its two
  square roots raises \<open>ValueError\<close>.
\<close>

lemma haversine_distance_cases:
  "haversine_distance F c1 c2 = Inl ValueError \<or>
   (\<exists>d. haversine_distance F c1 c2 = Inr d \<and> 0 \<le> d)"
proof -
  define a where "a = fl F (f_pow F (f_sin F (fl F (fl F (f_radians F (fst c2)
       - f_radians F (fst c1)) / 2))) 2
     + fl F (fl F (f_cos F (f_radians F (fst c1)) * f_cos F (f_radians F (fst c2)))
         * f_pow F (f_sin F (fl F (fl F (f_radians F (snd c2)
             - f_radians F (snd c1)) / 2))) 2))"
  have h: "haversine_distance F c1 c2 =
      (case math_sqrt a of
         Inl e \<Rightarrow> Inl e
       | Inr sa \<Rightarrow>
           (case math_sqrt (fl F (1 - a)) of
              Inl e \<Rightarrow> Inl e
            | Inr sb \<Rightarrow> Inr (6371 * (2 * atan2 sa sb))))"
    by (simp only: haversine_distance_def Let_def a_def)
  show ?thesis
  proof (cases "a < 0 \<or> fl F (1 - a) < 0")
    case True
    then show ?thesis unfolding h by (auto simp add: math_sqrt_def)
  next
    case False
    then have "0 \<le> atan2 (sqrt a) (sqrt (fl F (1 - a)))"
      by (intro atan2_nonneg) simp_all
    then show ?thesis using False unfolding h by (auto simp add: math_sqrt_def)
  qed
qed

lemma haversine_distance_Inl: "haversine_distance F c1 c2 = Inl e \<Longrightarrow> e = ValueError"
  using haversine_distance_cases [of F c1 c2] by auto

lemma haversine_distance_Inr: "haversine_distance F c1 c2 = Inr d \<Longrightarrow> 0 \<le> d"
  using haversine_distance_cases [of F c1 c2] by auto

text \<open>Without rounding the two square roots are defined.\<close>

lemma haversine_distance_exact:
  "\<exists>d. haversine_distance exact_arith c1 c2 = Inr d \<and> 0 \<le> d"
proof -
  define a where "a = (sin ((radians (fst c2) - radians (fst c1)) / 2))\<^sup>2
     + cos (radians (fst c1)) * cos (radians (fst c2))
       * (sin ((radians (snd c2) - radians (snd c1)) / 2))\<^sup>2"
  have a: "0 \<le> a" "a \<le> 1"
    unfolding a_def by (rule haversine_a_bounds)+
  have "haversine_distance exact_arith c1 c2 = Inr (6371 * (2 * atan2 (sqrt a) (sqrt (1 - a))))"
    using a unfolding haversine_distance_def Let_def exact_arith_def float_arith.simps
      a_def [symmetric]
    by (simp add: math_sqrt_def)
  moreover have "0 \<le> atan2 (sqrt a) (sqrt (1 - a))"
    using a by (intro atan2_nonneg) simp_all
  ultimately show ?thesis by simp
qed

lemma random_uniform_jitter:
  assumes "0 \<le> fst (random_op R (rng w))" "fst (random_op R (rng w)) \<le> 1"
  shows "\<bar>fst (random_uniform R (- 0.001) 0.001 w)\<bar> \<le> 0.001"
proof -
  obtain u g where ug: "random_op R (rng w) = (u, g)" by (cases "random_op R (rng w)")
  with assms have "0 \<le> u" "u \<le> 1" by simp_all
  note u01 = this
  define x where "x = - 0.001 + (0.001 - - 0.001) * u"
  have "x = u / 500 - 1 / 1000" by (simp add: x_def)
  then have "- (1 / 1000) \<le> x" "x \<le> 1 / 1000" using u01 by linarith+
  then have "\<bar>x\<bar> \<le> 1 / 1000" by linarith
  then have "\<bar>x\<bar> \<le> 0.001" by simp
  moreover have "fst (random_uniform R (- 0.001) 0.001 w) = x"
    by (simp add: random_uniform_def ug x_def)
  ultimately show ?thesis by (simp only:)
qed

lemma random_uniform_keeps:
  "route_log (snd (random_uniform R lo hi w)) = route_log w \<and>
   requests (snd (random_uniform R lo hi w)) = requests w \<and>
   clock (snd (random_uniform R lo hi w)) = clock w \<and>
   arith (snd (random_uniform R lo hi w)) = arith w \<and>
   google_replies (snd (random_uniform R lo hi w)) = google_replies w \<and>
   openroute_replies (snd (random_uniform R lo hi w)) = openroute_replies w"
  by (simp add: random_uniform_def split: prod.splits)

lemma same_outside_rng_refl: "same_outside_rng w w"
  by (simp add: same_outside_rng_def)

lemma same_outside_rng_trans:
  "same_outside_rng w w1 \<Longrightarrow> same_outside_rng w1 w2 \<Longrightarrow> same_outside_rng w w2"
  by (simp add: same_outside_rng_def)

lemma random_uniform_same: "same_outside_rng w (snd (random_uniform R lo hi w))"
  using random_uniform_keeps [of R lo hi w] by (simp add: same_outside_rng_def)

lemma same_outside_rng_arith: "same_outside_rng w w' \<Longrightarrow> arith w' = arith w"
  by (simp add: same_outside_rng_def)

lemma interpolate_point_ok:
  assumes n: "n \<noteq> 0"
    and u: "\<And>g. 0 \<le> fst (random_op R g) \<and> fst (random_op R g) \<le> 1"
  shows "\<exists>p w'. interpolate_point R a b n i w = (Inr p, w') \<and>
           jittered (arith w) a b n i p \<and> same_outside_rng w w'"
proof (cases "0 < i \<and> i < n")
  case True
  obtain j1 w1 where r1: "random_uniform R (- 0.001) 0.001 w = (j1, w1)"
    by (cases "random_uniform R (- 0.001) 0.001 w")
  obtain j2 w2 where r2: "random_uniform R (- 0.001) 0.001 w1 = (j2, w2)"
    by (cases "random_uniform R (- 0.001) 0.001 w1")
  have j1: "\<bar>j1\<bar> \<le> 0.001"
    using random_uniform_jitter [of R w] u r1 by simp
  have j2: "\<bar>j2\<bar> \<le> 0.001"
    using random_uniform_jitter [of R w1] u r2 by simp
  have "same_outside_rng w w1" using random_uniform_same [of w R "- 0.001" "0.001"] r1 by simp
  moreover have "same_outside_rng w1 w2"
    using random_uniform_same [of w1 R "- 0.001" "0.001"] r2 by simp
  ultimately have s: "same_outside_rng w w2" by (rule same_outside_rng_trans)
  have e: "interpolate_point R a b n i w =
      (Inr (fl (arith w) (fst (float_point (arith w) a b n i) + j1),
            fl (arith w) (snd (float_point (arith w) a b n i) + j2)), w2)"
    using True n r1 r2 by (simp add: interpolate_point_def Let_def float_point_def)
  have "jittered (arith w) a b n i
      (fl (arith w) (fst (float_point (arith w) a b n i) + j1),
       fl (arith w) (snd (float_point (arith w) a b n i) + j2))"
  proof -
    have "\<exists>k1 k2. \<bar>k1\<bar> \<le> 0.001 \<and> \<bar>k2\<bar> \<le> 0.001 \<and>
        (fl (arith w) (fst (float_point (arith w) a b n i) + j1),
         fl (arith w) (snd (float_point (arith w) a b n i) + j2)) =
        (fl (arith w) (fst (float_point (arith w) a b n i) + k1),
         fl (arith w) (snd (float_point (arith w) a b n i) + k2))"
      using j1 j2 by blast
    then show ?thesis unfolding jittered_def using True by (simp only: if_True simp_thms)
  qed
  with e s show ?thesis by blast
next
  case False
  then have "interpolate_point R a b n i w = (Inr (float_point (arith w) a b n i), w)"
    using n by (auto simp add: interpolate_point_def Let_def float_point_def)
  then show ?thesis using False by (auto simp add: jittered_def same_outside_rng_refl)
qed

lemma interpolate_loop_ok:
  assumes n: "n \<noteq> 0"
    and u: "\<And>g. 0 \<le> fst (random_op R g) \<and> fst (random_op R g) \<le> 1"
  shows "\<exists>pts w'. interpolate_loop R a b n is path w = (Inr (path @ pts), w') \<and>
           list_all2 (jittered (arith w) a b n) is pts \<and> same_outside_rng w w'"
proof (induction "is" arbitrary: path w)
  case Nil
  show ?case by (simp add: same_outside_rng_refl)
next
  case (Cons i "is")
  obtain p w1 where p: "interpolate_point R a b n i w = (Inr p, w1)"
      "jittered (arith w) a b n i p" "same_outside_rng w w1"
    using interpolate_point_ok [OF n u] by blast
  have ar: "arith w1 = arith w" using p(3) by (rule same_outside_rng_arith)
  obtain pts w' where
    l: "interpolate_loop R a b n is (path @ [p]) w1 = (Inr ((path @ [p]) @ pts), w')"
       "list_all2 (jittered (arith w1) a b n) is pts" "same_outside_rng w1 w'"
    using Cons.IH by blast
  have "interpolate_loop R a b n (i # is) path w = (Inr (path @ (p # pts)), w')"
    using p l by simp
  moreover have "list_all2 (jittered (arith w) a b n) (i # is) (p # pts)"
    using p l ar by simp
  moreover have "same_outside_rng w w'" using p(3) l(3) by (rule same_outside_rng_trans)
  ultimately show ?case by blast
qed

lemma interpolate_path_ok:
  assumes n: "1 \<le> n"
    and u: "\<And>g. 0 \<le> fst (random_op R g) \<and> fst (random_op R g) \<le> 1"
  shows "\<exists>path w'. interpolate_path R a b n w = (Inr path, w') \<and>
           length path = nat n + 1 \<and>
           hd path = float_point (arith w) a b n 0 \<and>
           last path = float_point (arith w) a b n n \<and>
           (\<forall>k \<le> nat n. jittered (arith w) a b n (int k) (path ! k))"
proof -
  have n0: "n \<noteq> 0" using n by simp
  obtain pts w' where
    l: "interpolate_loop R a b n [0..n] [] w = (Inr ([] @ pts), w')"
       "list_all2 (jittered (arith w) a b n) [0..n] pts"
    using interpolate_loop_ok [OF n0 u] by blast
  have len: "length pts = nat n + 1"
    using list_all2_lengthD [OF l(2)] n by simp
  have nth: "jittered (arith w) a b n (int k) (pts ! k)" if "k \<le> nat n" for k
  proof -
    have "k < length [0..n]" using that n by simp
    then have "jittered (arith w) a b n ([0..n] ! k) (pts ! k)"
      using l(2) by (rule list_all2_nthD [rotated])
    moreover have "[0..n] ! k = 0 + int k"
      using that n by (intro nth_upto) simp
    ultimately show ?thesis by simp
  qed
  have "pts \<noteq> []" using len by auto
  have "hd pts = pts ! 0" using \<open>pts \<noteq> []\<close> by (simp add: hd_conv_nth)
  moreover have "jittered (arith w) a b n 0 (pts ! 0)" using nth [of 0] by simp
  ultimately have h: "hd pts = float_point (arith w) a b n 0"
    by (simp add: jittered_def)
  have "last pts = pts ! nat n" using \<open>pts \<noteq> []\<close> len by (simp add: last_conv_nth)
  moreover have "jittered (arith w) a b n n (pts ! nat n)" using nth [of "nat n"] n by simp
  ultimately have la: "last pts = float_point (arith w) a b n n"
    by (simp add: jittered_def)
  show ?thesis
    using l(1) len h la nth by (simp add: interpolate_path_def)
qed

lemma float_point_first:
  assumes "fl F 0 = 0" "fl F (fst a) = fst a" "fl F (snd a) = snd a"
  shows "float_point F a b n 0 = a"
  using assms by (simp add: float_point_def)

lemma float_point_last:
  assumes "n \<noteq> 0"
  shows "float_point F a b n n =
     (fl F (fst a + fl F (fl F 1 * fl F (fst b - fst a))),
      fl F (snd a + fl F (fl F 1 * fl F (snd b - snd a))))"
  using assms by (simp add: float_point_def)

lemma float_point_exact: "float_point exact_arith a b n i = linear_point a b n i"
  by (simp add: float_point_def linear_point_def exact_arith_def)

lemma linear_point_last: "n \<noteq> 0 \<Longrightarrow> linear_point a b n n = b"
  by (simp add: linear_point_def)

subsection \<open>Double arithmetic\<close>

lemma round_half_even_of_int: "round_half_even (of_int m) = m"
  by (simp add: round_half_even_def)

lemma binary64_round_scaled:
  assumes "2 ^ 52 \<le> \<bar>y\<bar>" "\<bar>y\<bar> < 2 ^ 53"
  shows "binary64_round (y * 2 powr of_int k) = of_int (round_half_even y) * 2 powr of_int k"
proof -
  have y0: "0 < \<bar>y\<bar>" using assms(1) by (smt (verit) zero_less_power)
  have e52: "log 2 ((2::real) ^ 52) = 52" by (subst log_nat_power) simp_all
  have e53: "log 2 ((2::real) ^ 53) = 53" by (subst log_nat_power) simp_all
  have "log 2 (2 ^ 52) \<le> log 2 \<bar>y\<bar>" using assms(1) by (subst log_le_cancel_iff) simp_all
  then have l1: "52 \<le> log 2 \<bar>y\<bar>" by (simp only: e52)
  have "log 2 \<bar>y\<bar> < log 2 (2 ^ 53)" using assms(2) y0 by (subst log_less_cancel_iff) simp_all
  then have l2: "log 2 \<bar>y\<bar> < 53" by (simp only: e53)
  have "\<bar>y * 2 powr of_int k\<bar> = \<bar>y\<bar> * 2 powr of_int k" by (simp add: abs_mult)
  then have "log 2 \<bar>y * 2 powr of_int k\<bar> = log 2 \<bar>y\<bar> + of_int k"
    using y0 by (simp add: log_mult)
  then have "\<lfloor>log 2 \<bar>y * 2 powr of_int k\<bar>\<rfloor> = \<lfloor>log 2 \<bar>y\<bar>\<rfloor> + k" by simp
  moreover have "\<lfloor>log 2 \<bar>y\<bar>\<rfloor> = 52" using l1 l2 by (intro floor_unique) simp_all
  ultimately have f: "\<lfloor>log 2 \<bar>y * 2 powr of_int k\<bar>\<rfloor> = 52 + k" by simp
  have nz: "y * 2 powr of_int k \<noteq> 0" using y0 by simp
  show ?thesis
    unfolding binary64_round_def Let_def f using nz by simp
qed

lemma binary64_round_1: "binary64_round 1 = 1"
proof -
  have "binary64_round (2 ^ 52 * 2 powr of_int (- 52))
      = of_int (round_half_even (2 ^ 52)) * 2 powr of_int (- 52)"
    by (rule binary64_round_scaled) simp_all
  moreover have "round_half_even (2 ^ 52) = 2 ^ 52"
    using round_half_even_of_int [of "2 ^ 52"] by simp
  moreover have "(2::real) ^ 52 * 2 powr of_int (- 52) = 1"
    by (simp add: powr_minus powr_numeral)
  ultimately show ?thesis by simp
qed

lemma lon_difference:
  "binary64_round (3804640965202595 / 2 ^ 50 - (- 5206238574858889 / 2 ^ 46))
     = 5444028635184051 / 2 ^ 46"
proof -
  have "binary64_round ((87104458162944819 / 16) * 2 powr of_int (- 46))
      = of_int (round_half_even (87104458162944819 / 16)) * 2 powr of_int (- 46)"
    by (rule binary64_round_scaled) simp_all
  moreover have "round_half_even (87104458162944819 / 16) = 5444028635184051"
    by (simp add: round_half_even_def)
  moreover have "(87104458162944819 / 16) * 2 powr of_int (- 46)
      = (3804640965202595 / 2 ^ 50 - (- 5206238574858889 / 2 ^ 46) :: real)"
    by (simp add: powr_minus powr_numeral)
  moreover have "of_int 5444028635184051 * 2 powr of_int (- 46) = (5444028635184051 / 2 ^ 46 :: real)"
    by (simp add: powr_minus powr_numeral)
  ultimately show ?thesis by (simp only:)
qed

lemma binary64_round_representable:
  assumes "2 ^ 52 \<le> \<bar>m\<bar>" "\<bar>m\<bar> < 2 ^ 53" "x = real_of_int m * 2 powr of_int k"
  shows "binary64_round x = x"
proof -
  have "real_of_int (2 ^ 52) \<le> real_of_int \<bar>m\<bar>"
    using assms(1) by (simp only: of_int_le_iff)
  then have b1: "2 ^ 52 \<le> \<bar>real_of_int m\<bar>" by simp
  have "real_of_int \<bar>m\<bar> < real_of_int (2 ^ 53)"
    using assms(2) by (simp only: of_int_less_iff)
  then have b2: "\<bar>real_of_int m\<bar> < 2 ^ 53" by simp
  from b1 b2 have "binary64_round (real_of_int m * 2 powr of_int k)
      = of_int (round_half_even (real_of_int m)) * 2 powr of_int k"
    by (rule binary64_round_scaled)
  then show ?thesis by (simp only: assms(3) round_half_even_of_int)
qed

lemma lon_sum:
  "binary64_round (- 5206238574858889 / 2 ^ 46 + 5444028635184051 / 2 ^ 46)
     = 118895030162581 / 2 ^ 45"
proof -
  have "binary64_round (118895030162581 / 2 ^ 45) = 118895030162581 / 2 ^ 45"
    by (rule binary64_round_representable [of 7609281930405184 _ "- 51"])
      (simp_all add: powr_minus powr_numeral)
  moreover have "(- 5206238574858889 / 2 ^ 46 + 5444028635184051 / 2 ^ 46 :: real)
      = 118895030162581 / 2 ^ 45" by simp
  ultimately show ?thesis by (simp only:)
qed

lemma lon_product:
  "binary64_round (1 * (5444028635184051 / 2 ^ 46)) = 5444028635184051 / 2 ^ 46"
proof -
  have "binary64_round (5444028635184051 / 2 ^ 46) = 5444028635184051 / 2 ^ 46"
    by (rule binary64_round_representable [of 5444028635184051 _ "- 46"])
      (simp_all add: powr_minus powr_numeral)
  then show ?thesis by (simp only: mult_1)
qed

lemma lat_difference:
  "binary64_round (459113834512751 / 2 ^ 46 - 2868152607062989 / 2 ^ 46)
     = - 1204519386275119 / 2 ^ 45"
proof -
  have "binary64_round (- 1204519386275119 / 2 ^ 45) = - 1204519386275119 / 2 ^ 45"
    by (rule binary64_round_representable [of "- 4818077545100476" _ "- 47"])
      (simp_all add: powr_minus powr_numeral)
  moreover have "(459113834512751 / 2 ^ 46 - 2868152607062989 / 2 ^ 46 :: real)
      = - 1204519386275119 / 2 ^ 45" by simp
  ultimately show ?thesis by (simp only:)
qed

lemma lat_product:
  "binary64_round (1 * (- 1204519386275119 / 2 ^ 45)) = - 1204519386275119 / 2 ^ 45"
proof -
  have "binary64_round (- 1204519386275119 / 2 ^ 45) = - 1204519386275119 / 2 ^ 45"
    by (rule binary64_round_representable [of "- 4818077545100476" _ "- 47"])
      (simp_all add: powr_minus powr_numeral)
  then show ?thesis by (simp only: mult_1)
qed

lemma lat_sum:
  "binary64_round (2868152607062989 / 2 ^ 46 + - 1204519386275119 / 2 ^ 45)
     = 459113834512751 / 2 ^ 46"
proof -
  have "binary64_round (459113834512751 / 2 ^ 46) = 459113834512751 / 2 ^ 46"
    by (rule binary64_round_representable [of 7345821352204016 _ "- 50"])
      (simp_all add: powr_minus powr_numeral)
  moreover have "(2868152607062989 / 2 ^ 46 + - 1204519386275119 / 2 ^ 45 :: real)
      = 459113834512751 / 2 ^ 46" by simp
  ultimately show ?thesis by (simp only:)
qed

lemma float_point_new_york_lagos:
  "float_point binary64_arith new_york lagos 5 5
     = (459113834512751 / 2 ^ 46, 118895030162581 / 2 ^ 45)"
proof -
  have "float_point binary64_arith new_york lagos 5 5 =
     (binary64_round (2868152607062989 / 2 ^ 46
        + binary64_round (binary64_round 1
            * binary64_round (459113834512751 / 2 ^ 46 - 2868152607062989 / 2 ^ 46))),
      binary64_round (- 5206238574858889 / 2 ^ 46
        + binary64_round (binary64_round 1
            * binary64_round (3804640965202595 / 2 ^ 50 - (- 5206238574858889 / 2 ^ 46)))))"
    unfolding float_point_last [of 5, simplified] new_york_def lagos_def binary64_arith_def
      float_arith.simps fst_conv snd_conv ..
  then show ?thesis
    by (simp only: binary64_round_1 lat_difference lon_difference lat_product lon_product
        lat_sum lon_sum)
qed

text \<open>
  Claim C4, as amended.  For \<open>n \<ge> 1\<close>, a generator whose \<open>random()\<close> lies in the unit
  interval, and an arithmetic in which \<open>0\<close> and the coordinates of \<open>a\<close> are floats,
  \<open>_interpolate_path\<close> returns normally a path of \<open>n + 1\<close> points.  Its first point is
  \<open>a\<close>.  Its last point has no jitter: it is the point that the arithmetic computes as
  \<open>a + (n / n) * (b - a)\<close>.  Every interior point is the point that the arithmetic
  computes as \<open>a + (i / n) * (b - a)\<close> plus, in each coordinate, a jitter of at most
  \<open>0.001\<close>, the sum rounded.
\<close>

theorem interpolate_path_points:
  assumes n: "1 \<le> n"
    and u: "\<And>g. 0 \<le> fst (random_op R g) \<and> fst (random_op R g) \<le> 1"
    and z: "fl (arith w) 0 = 0"
    and a: "fl (arith w) (fst a) = fst a" "fl (arith w) (snd a) = snd a"
  shows "\<exists>path w'. interpolate_path R a b n w = (Inr path, w') \<and>
           length path = nat n + 1 \<and> hd path = a \<and>
           last path =
             (fl (arith w) (fst a + fl (arith w) (fl (arith w) 1 * fl (arith w) (fst b - fst a))),
              fl (arith w) (snd a + fl (arith w) (fl (arith w) 1 * fl (arith w) (snd b - snd a)))) \<and>
           (\<forall>i. 0 < i \<and> i < n \<longrightarrow>
              (\<exists>j1 j2. \<bar>j1\<bar> \<le> 0.001 \<and> \<bar>j2\<bar> \<le> 0.001 \<and>
                 path ! nat i =
                   (fl (arith w) (fst (float_point (arith w) a b n i) + j1),
                    fl (arith w) (snd (float_point (arith w) a b n i) + j2))))"
proof -
  have n0: "n \<noteq> 0" using n by simp
  obtain path w' where
    p: "interpolate_path R a b n w = (Inr path, w')" "length path = nat n + 1"
       "hd path = float_point (arith w) a b n 0"
       "last path = float_point (arith w) a b n n"
       "\<forall>k \<le> nat n. jittered (arith w) a b n (int k) (path ! k)"
    using interpolate_path_ok [OF n u] by blast
  have h: "hd path = a" using p(3) float_point_first [OF z a] by simp
  have la: "last path =
      (fl (arith w) (fst a + fl (arith w) (fl (arith w) 1 * fl (arith w) (fst b - fst a))),
       fl (arith w) (snd a + fl (arith w) (fl (arith w) 1 * fl (arith w) (snd b - snd a))))"
    using p(4) float_point_last [OF n0] by simp
  have mid: "\<exists>j1 j2. \<bar>j1\<bar> \<le> 0.001 \<and> \<bar>j2\<bar> \<le> 0.001 \<and>
       path ! nat i =
         (fl (arith w) (fst (float_point (arith w) a b n i) + j1),
          fl (arith w) (snd (float_point (arith w) a b n i) + j2))" if "0 < i \<and> i < n" for i
  proof -
    have "nat i \<le> nat n" using that by linarith
    then have "jittered (arith w) a b n (int (nat i)) (path ! nat i)" using p(5) by blast
    moreover have "int (nat i) = i" using that by simp
    ultimately have "jittered (arith w) a b n i (path ! nat i)" by simp
    then show ?thesis unfolding jittered_def using that by (simp only: if_True simp_thms)
  qed
  show ?thesis
    using p(1,2) h la mid by blast
qed

theorem interpolate_path_points_witness:
  "(1::int) \<le> 2 \<and>
   (\<forall>g. 0 \<le> fst (random_op example_rng g) \<and> fst (random_op example_rng g) \<le> 1) \<and>
   fl (arith example_world) 0 = 0 \<and>
   (\<exists>path w'. interpolate_path example_rng (0, 0) (1, 1) 2 example_world = (Inr path, w') \<and>
      length path = 3 \<and> hd path = (0, 0) \<and> last path = (1, 1))"
proof -
  have u: "\<And>g. 0 \<le> fst (random_op example_rng g) \<and> fst (random_op example_rng g) \<le> 1"
    by (simp add: example_rng_def)
  have n: "(1::int) \<le> 2" by simp
  have z: "fl (arith example_world) 0 = 0" by (simp add: example_world_def exact_arith_def)
  have a: "fl (arith example_world) (fst (0 :: real, 0 :: real)) = fst (0 :: real, 0 :: real)"
    "fl (arith example_world) (snd (0 :: real, 0 :: real)) = snd (0 :: real, 0 :: real)"
    by (simp_all add: example_world_def exact_arith_def)
  have f: "fl (arith example_world) = (\<lambda>x. x)" by (simp add: example_world_def exact_arith_def)
  from interpolate_path_points [OF n u z a, of "(1, 1)"] u z
  show ?thesis unfolding f by auto
qed

text \<open>
  The claim as stated fails.  In double arithmetic the path of 5 segments from
  \<open>(40.7589, -73.9851)\<close> to \<open>(6.5244, 3.3792)\<close> ends at the longitude
  \<open>3.3791999999999973\<close>: the difference of the two longitudes is rounded, and adding it
  to the first longitude does not give the second one.
\<close>

theorem interpolate_path_counterexample:
  "map_sum id last (fst (interpolate_path example_rng new_york lagos 5 binary64_world))
     = Inr (fst lagos, 118895030162581 / 2 ^ 45) \<and>
   snd lagos = 3804640965202595 / 2 ^ 50 \<and>
   map_sum id last (fst (interpolate_path example_rng new_york lagos 5 binary64_world))
     \<noteq> Inr lagos"
proof -
  have u: "\<And>g. 0 \<le> fst (random_op example_rng g) \<and> fst (random_op example_rng g) \<le> 1"
    by (simp add: example_rng_def)
  have n: "(1::int) \<le> 5" by simp
  obtain path w' where
    p: "interpolate_path example_rng new_york lagos 5 binary64_world = (Inr path, w')"
       "last path = float_point (arith binary64_world) new_york lagos 5 5"
    using interpolate_path_ok [OF n u] by blast
  have "arith binary64_world = binary64_arith" by (simp add: binary64_world_def)
  then have "last path = (459113834512751 / 2 ^ 46, 118895030162581 / 2 ^ 45)"
    using p(2) float_point_new_york_lagos by simp
  then have e: "map_sum id last
      (fst (interpolate_path example_rng new_york lagos 5 binary64_world))
      = Inr (459113834512751 / 2 ^ 46, 118895030162581 / 2 ^ 45)"
    using p(1) by simp
  show ?thesis unfolding e by (simp add: lagos_def)
qed

section \<open>Properties of the simulated route\<close>

lemma interpolate_point_returns:
  assumes "n \<noteq> 0"
  shows "\<exists>p w'. interpolate_point R a b n i w = (Inr p, w') \<and> same_outside_rng w w'"
proof (cases "0 < i \<and> i < n")
  case True
  obtain j1 w1 where r1: "random_uniform R (- 0.001) 0.001 w = (j1, w1)"
    by (cases "random_uniform R (- 0.001) 0.001 w")
  obtain j2 w2 where r2: "random_uniform R (- 0.001) 0.001 w1 = (j2, w2)"
    by (cases "random_uniform R (- 0.001) 0.001 w1")
  have "same_outside_rng w w1" using random_uniform_same [of w R "- 0.001" "0.001"] r1 by simp
  moreover have "same_outside_rng w1 w2"
    using random_uniform_same [of w1 R "- 0.001" "0.001"] r2 by simp
  ultimately have "same_outside_rng w w2" by (rule same_outside_rng_trans)
  then show ?thesis
    using True assms r1 r2 by (simp add: interpolate_point_def Let_def)
next
  case False
  then show ?thesis
    using assms by (auto simp add: interpolate_point_def Let_def same_outside_rng_refl)
qed

lemma interpolate_loop_returns:
  assumes "n \<noteq> 0"
  shows "\<exists>pts w'. interpolate_loop R a b n is path w = (Inr (path @ pts), w') \<and>
           length pts = length is \<and> same_outside_rng w w'"
proof (induction "is" arbitrary: path w)
  case Nil
  show ?case by (simp add: same_outside_rng_refl)
next
  case (Cons i "is")
  obtain p w1 where p: "interpolate_point R a b n i w = (Inr p, w1)" "same_outside_rng w w1"
    using interpolate_point_returns [OF assms] by blast
  obtain pts w' where
    l: "interpolate_loop R a b n is (path @ [p]) w1 = (Inr ((path @ [p]) @ pts), w')"
       "length pts = length is" "same_outside_rng w1 w'"
    using Cons.IH by blast
  have "interpolate_loop R a b n (i # is) path w = (Inr (path @ (p # pts)), w')"
    using p l by simp
  moreover have "length (p # pts) = length (i # is)" using l by simp
  moreover have "same_outside_rng w w'" using p(2) l(3) by (rule same_outside_rng_trans)
  ultimately show ?case by blast
qed

lemma interpolate_path_returns:
  assumes "1 \<le> n"
  shows "\<exists>path w'. interpolate_path R a b n w = (Inr path, w') \<and> length path = nat n + 1
            \<and> same_outside_rng w w'"
proof -
  have "n \<noteq> 0" using assms by simp
  from interpolate_loop_returns [OF this, of R a b "[0..n]" "[]" w] assms
  show ?thesis by (auto simp add: interpolate_path_def)
qed

lemma get_simulated_route_returns:
  assumes d: "haversine_distance (arith w) a b = Inr d"
  shows "\<exists>path w'. 0 \<le> d \<and>
     interpolate_path R a b (max 5 (py_int (d * 2))) w = (Inr path, w') \<and>
     length path = nat (max 5 (py_int (d * 2))) + 1 \<and>
     same_outside_rng w w' \<and>
     get_simulated_route R a b w =
       (Inr \<lparr>distance = py_round (d * 1.3) 2,
             duration = py_round (d * 1.3 / 40 * 60) 1,
             duration_in_traffic = Some (py_round (d * 1.3 / 40 * 60 * 1.2) 1),
             start_address = None, end_address = None,
             coordinates = path,
             steps = [\<lparr>instruction = ''Head to emergency location'',
                       step_distance = d * 1.3, step_duration = d * 1.3 / 40 * 60\<rparr>],
             warnings = None, service = ''simulated'', simulated = Some True,
             route_name = None\<rparr>, w')"
proof -
  have d0: "0 \<le> d" using d by (rule haversine_distance_Inr)
  have "1 \<le> max 5 (py_int (d * 2))" by simp
  from interpolate_path_returns [OF this, of R a b w]
  obtain path w' where
    p: "interpolate_path R a b (max 5 (py_int (d * 2))) w = (Inr path, w')"
       "length path = nat (max 5 (py_int (d * 2))) + 1" "same_outside_rng w w'"
    by blast
  have "get_simulated_route R a b w =
       (Inr \<lparr>distance = py_round (d * 1.3) 2,
             duration = py_round (d * 1.3 / 40 * 60) 1,
             duration_in_traffic = Some (py_round (d * 1.3 / 40 * 60 * 1.2) 1),
             start_address = None, end_address = None,
             coordinates = path,
             steps = [\<lparr>instruction = ''Head to emergency location'',
                       step_distance = d * 1.3, step_duration = d * 1.3 / 40 * 60\<rparr>],
             warnings = None, service = ''simulated'', simulated = Some True,
             route_name = None\<rparr>, w')"
    unfolding get_simulated_route_def d Let_def sum.case p(1) prod.case ..
  with d0 p show ?thesis by blast
qed

text \<open>
  The simulator has no handler: the \<open>ValueError\<close> of \<open>_haversine_distance\<close> is its own, and
  it raises nothing else.
\<close>

lemma get_simulated_route_raises:
  "haversine_distance (arith w) a b = Inl e \<Longrightarrow> get_simulated_route R a b w = (Inl e, w)"
  by (simp add: get_simulated_route_def)

lemma get_simulated_route_cases:
  "(haversine_distance (arith w) a b = Inl ValueError \<and>
    get_simulated_route R a b w = (Inl ValueError, w)) \<or>
   (\<exists>d r w'. haversine_distance (arith w) a b = Inr d \<and>
      get_simulated_route R a b w = (Inr r, w'))"
proof (cases "haversine_distance (arith w) a b")
  case (Inl e)
  then have "e = ValueError" by (rule haversine_distance_Inl)
  then show ?thesis using Inl get_simulated_route_raises [of w a b e R] by simp
next
  case (Inr d)
  from get_simulated_route_returns [OF this, of R] Inr show ?thesis by blast
qed

subsection \<open>A concrete distance\<close>

lemma arctan_le_self: "0 \<le> x \<Longrightarrow> arctan x \<le> x"
proof -
  assume x: "0 \<le> x"
  have "(\<lambda>t. t - arctan t) 0 \<le> (\<lambda>t. t - arctan t) x"
  proof (rule DERIV_nonneg_imp_nondecreasing [OF x])
    fix t :: real
    assume "0 \<le> t" "t \<le> x"
    have "((\<lambda>t. t - arctan t) has_real_derivative (1 - inverse (1 + t\<^sup>2))) (at t)"
      by (auto intro!: derivative_eq_intros)
    moreover have "inverse (1 + t\<^sup>2) \<le> 1"
      by (rule inverse_le_1_iff [THEN iffD2]) simp
    ultimately show "\<exists>y. ((\<lambda>t. t - arctan t) has_real_derivative y) (at t) \<and> 0 \<le> y"
      by (intro exI [of _ "1 - inverse (1 + t\<^sup>2)"]) simp
  qed
  then show ?thesis by simp
qed

lemma pi_less_32: "pi < 3.2"
proof -
  have "arctan (1 / 5) \<le> 1 / (5::real)" by (rule arctan_le_self) simp
  moreover have "0 < arctan (1 / (239::real))" by simp
  ultimately have "4 * arctan (1 / 5) - arctan (1 / 239) < 4 / (5::real)" by linarith
  then have "pi / 4 < 4 / 5" by (simp only: machin [symmetric])
  then show ?thesis by simp
qed

lemma pi_ge_3: "3 \<le> pi"
proof -
  have "sin (pi / 6) \<le> pi / 6" by (rule sin_x_le_x) simp
  then show ?thesis by (simp add: sin_30)
qed

lemma haversine_equator:
  assumes "0 \<le> l" "l < 90"
  shows "haversine_distance exact_arith (0, 0) (0, l) = Inr (6371 * (l * pi / 180))"
proof -
  define y where "y = l * pi / 180 / 2"
  have y0: "0 \<le> y" using assms by (simp add: y_def)
  have "l * pi < 90 * pi" using assms by simp
  then have y1: "y < pi / 2" by (simp add: y_def)
  have s: "0 \<le> sin y" using y0 y1 by (intro sin_ge_zero) (simp_all add: pi_gt_zero less_imp_le)
  have c: "0 < cos y" using y0 y1 by (intro cos_gt_zero_pi) simp_all
  have sq1: "sqrt ((sin y)\<^sup>2) = sin y" using s by simp
  have "1 - (sin y)\<^sup>2 = (cos y)\<^sup>2" by (simp add: cos_squared_eq)
  then have sq2: "sqrt (1 - (sin y)\<^sup>2) = cos y" using c by simp
  have "atan2 (sin y) (cos y) = arctan (tan y)" using c by (simp add: atan2_def tan_def)
  also have "\<dots> = y" using y0 y1 by (intro arctan_tan) simp_all
  finally have at: "atan2 (sin y) (cos y) = y" .
  have nn: "\<not> (sin y)\<^sup>2 < 0" "\<not> 1 - (sin y)\<^sup>2 < 0"
    using \<open>1 - (sin y)\<^sup>2 = (cos y)\<^sup>2\<close> by simp_all
  have "haversine_distance exact_arith (0, 0) (0, l)
      = Inr (6371 * (2 * atan2 (sqrt ((sin y)\<^sup>2)) (sqrt (1 - (sin y)\<^sup>2))))"
    using nn
    by (simp add: haversine_distance_def exact_arith_def radians_def Let_def math_sqrt_def
        y_def)
  then have "haversine_distance exact_arith (0, 0) (0, l) = Inr (6371 * (2 * y))"
    by (simp only: sq1 sq2 at)
  moreover have "2 * y = l * pi / 180" by (simp add: y_def)
  ultimately show ?thesis by (simp only:)
qed






lemma arith_example_world: "arith example_world = exact_arith"
  by (simp add: example_world_def)




section \<open>Properties of route resolution\<close>

lemma round_half_even_bounds:
  "real_of_int \<lfloor>x\<rfloor> \<le> real_of_int (round_half_even x)"
  "round_half_even x \<le> \<lfloor>x\<rfloor> + 1"
  by (simp_all add: round_half_even_def Let_def)

lemma round_half_even_mono: "x \<le> y \<Longrightarrow> round_half_even x \<le> round_half_even y"
proof -
  assume xy: "x \<le> y"
  have fl: "\<lfloor>x\<rfloor> \<le> \<lfloor>y\<rfloor>" using xy by (rule floor_mono)
  show ?thesis
  proof (cases "\<lfloor>x\<rfloor> = \<lfloor>y\<rfloor>")
    case True
    then have "x - of_int \<lfloor>x\<rfloor> \<le> y - of_int \<lfloor>y\<rfloor>" using xy by simp
    then show ?thesis using True
      by (auto simp add: round_half_even_def Let_def)
  next
    case False
    then have "\<lfloor>x\<rfloor> + 1 \<le> \<lfloor>y\<rfloor>" using fl by simp
    moreover have "round_half_even x \<le> \<lfloor>x\<rfloor> + 1" by (rule round_half_even_bounds)
    moreover have "\<lfloor>y\<rfloor> \<le> round_half_even y"
      using round_half_even_bounds(1) [of y] by linarith
    ultimately show ?thesis by linarith
  qed
qed

lemma py_round_mono: "x \<le> y \<Longrightarrow> py_round x n \<le> py_round y n"
proof -
  assume "x \<le> y"
  then have "x * 10 ^ n \<le> y * 10 ^ n" by simp
  then have "round_half_even (x * 10 ^ n) \<le> round_half_even (y * 10 ^ n)"
    by (rule round_half_even_mono)
  then show ?thesis by (simp add: py_round_def divide_right_mono)
qed

lemma get_simulated_route_ok:
  assumes "get_simulated_route R a b w = (Inr r, w')"
  shows "same_outside_rng w w' \<and> simulated r = Some True \<and> service r = ''simulated'' \<and>
     (\<exists>t. duration_in_traffic r = Some t \<and> duration r \<le> t)"
proof -
  obtain d where d: "haversine_distance (arith w) a b = Inr d"
    using get_simulated_route_cases [of w a b R] assms by auto
  from get_simulated_route_returns [OF d, of R] assms
  have h: "0 \<le> d" "same_outside_rng w w'"
       "simulated r = Some True" "service r = ''simulated''"
       "duration r = py_round (d * 1.3 / 40 * 60) 1"
       "duration_in_traffic r = Some (py_round (d * 1.3 / 40 * 60 * 1.2) 1)"
    by auto
  have "d * 1.3 / 40 * 60 \<le> d * 1.3 / 40 * 60 * 1.2" using h(1) by simp
  then have "duration r \<le> py_round (d * 1.3 / 40 * 60 * 1.2) 1"
    unfolding h(5) by (rule py_round_mono)
  with h show ?thesis by blast
qed

lemma same_outside_rng_requests:
  "same_outside_rng (w\<lparr>requests := k\<rparr>) w' \<Longrightarrow>
     route_log w' = route_log w \<and> requests w' = k \<and> clock w' = clock w \<and>
     arith w' = arith w \<and> google_replies w' = google_replies w \<and> openroute_replies w' = openroute_replies w"
  by (simp add: same_outside_rng_def)

lemma get_google_route_cases:
  "get_google_route R api a b m opt w =
     (case google_adapter_result (google_replies w (requests w)) of
        Some r \<Rightarrow> (Inr r, w\<lparr>requests := requests w + 1\<rparr>)
      | None \<Rightarrow> get_simulated_route R a b (w\<lparr>requests := requests w + 1\<rparr>))"
  by (simp add: get_google_route_def google_adapter_result_def Let_def
      split: reply.splits option.splits sum.splits)

lemma get_openroute_route_cases:
  "get_openroute_route R api a b m w =
     (case openroute_adapter_result (openroute_replies w (requests w)) of
        Some r \<Rightarrow> (Inr r, w\<lparr>requests := requests w + 1\<rparr>)
      | None \<Rightarrow> get_simulated_route R a b (w\<lparr>requests := requests w + 1\<rparr>))"
  by (simp add: get_openroute_route_def openroute_adapter_result_def Let_def
      split: reply.splits option.splits list.splits)

lemma get_optimal_route_cases:
  "get_optimal_route R api a b m opt w =
     (case provider_route api w of
        Some r \<Rightarrow> (Inr r, w\<lparr>route_log := route_log w @ [(a, b)], requests := requests w + 1\<rparr>)
      | None \<Rightarrow>
          get_simulated_route R a b
            (if enabled api \<and> (api_service api = ''google'' \<or> api_service api = ''openroute'')
             then w\<lparr>route_log := route_log w @ [(a, b)], requests := requests w + 1\<rparr>
             else w\<lparr>route_log := route_log w @ [(a, b)]\<rparr>))"
  by (auto simp add: get_optimal_route_def provider_route_def Let_def get_google_route_cases
      get_openroute_route_cases split: option.splits)


text \<open>
  What \<open>get_optimal_route\<close> does: it returns the route of the provider, or the route of
  the simulator, or the simulator raises \<open>ValueError\<close>.
\<close>

lemma get_optimal_route_result:
  "(\<exists>r w'. get_optimal_route R api a b m opt w = (Inr r, w') \<and>
      route_log w' = route_log w @ [(a, b)] \<and> clock w' = clock w \<and> arith w' = arith w \<and>
      google_replies w' = google_replies w \<and> openroute_replies w' = openroute_replies w \<and>
      (case provider_route api w of
         Some pr \<Rightarrow> r = pr
       | None \<Rightarrow> simulated r = Some True \<and> service r = ''simulated'' \<and>
                 (\<exists>t. duration_in_traffic r = Some t \<and> duration r \<le> t))) \<or>
   (\<exists>w'. get_optimal_route R api a b m opt w = (Inl ValueError, w') \<and>
      provider_route api w = None \<and> haversine_distance (arith w) a b = Inl ValueError \<and>
      route_log w' = route_log w @ [(a, b)] \<and> clock w' = clock w \<and> arith w' = arith w \<and>
      google_replies w' = google_replies w \<and> openroute_replies w' = openroute_replies w)"
proof (cases "provider_route api w")
  case None
  define w0 where "w0 =
    (if enabled api \<and> (api_service api = ''google'' \<or> api_service api = ''openroute'')
     then w\<lparr>route_log := route_log w @ [(a, b)], requests := requests w + 1\<rparr>
     else w\<lparr>route_log := route_log w @ [(a, b)]\<rparr>)"
  have g: "get_optimal_route R api a b m opt w = get_simulated_route R a b w0"
    using None by (simp add: get_optimal_route_cases w0_def)
  have w0: "route_log w0 = route_log w @ [(a, b)]" "clock w0 = clock w" "arith w0 = arith w"
    "google_replies w0 = google_replies w" "openroute_replies w0 = openroute_replies w"
    by (simp_all add: w0_def)
  from get_simulated_route_cases [of w0 a b R]
  show ?thesis
  proof
    assume "haversine_distance (arith w0) a b = Inl ValueError \<and>
      get_simulated_route R a b w0 = (Inl ValueError, w0)"
    then show ?thesis using None g w0 by simp
  next
    assume "\<exists>d r w'. haversine_distance (arith w0) a b = Inr d \<and>
      get_simulated_route R a b w0 = (Inr r, w')"
    then obtain r w' where r: "get_simulated_route R a b w0 = (Inr r, w')" by blast
    from get_simulated_route_ok [OF r]
    have h: "same_outside_rng w0 w'" "simulated r = Some True" "service r = ''simulated''"
      "\<exists>t. duration_in_traffic r = Some t \<and> duration r \<le> t"
      by blast+
    have "route_log w' = route_log w @ [(a, b)] \<and> clock w' = clock w \<and> arith w' = arith w \<and>
       google_replies w' = google_replies w \<and> openroute_replies w' = openroute_replies w"
      using h(1) w0 by (simp add: same_outside_rng_def)
    then show ?thesis using None g r h by simp
  qed
next
  case (Some pr)
  then show ?thesis by (simp add: get_optimal_route_cases)
qed



text \<open>Without rounding \<open>get_optimal_route\<close> returns a route.\<close>

lemma get_optimal_route_exact:
  assumes "arith w = exact_arith"
  shows "\<exists>r w'. get_optimal_route R api a b m opt w = (Inr r, w') \<and>
     route_log w' = route_log w @ [(a, b)] \<and> clock w' = clock w \<and> arith w' = exact_arith \<and>
     google_replies w' = google_replies w \<and> openroute_replies w' = openroute_replies w \<and>
     (case provider_route api w of
        Some pr \<Rightarrow> r = pr
      | None \<Rightarrow> simulated r = Some True \<and> service r = ''simulated'' \<and>
                (\<exists>t. duration_in_traffic r = Some t \<and> duration r \<le> t))"
proof -
  have "haversine_distance (arith w) a b \<noteq> Inl ValueError"
    using haversine_distance_exact [of a b] assms by auto
  with get_optimal_route_result [of R api a b m opt w] assms show ?thesis by auto
qed

lemma nth_upto_from_1: "1 \<le> i \<Longrightarrow> i \<le> k \<Longrightarrow> [1..k] ! (nat i - 1) = i"
  by (subst nth_upto) auto

lemma offline_api_disabled: "\<not> enabled offline_api"
  by (simp add: offline_api_def RoutingAPI_init_def py_or_def getenv_def Let_def)

lemma offline_api_simulates:
  "\<exists>r w'. get_optimal_route example_rng offline_api a b m opt example_world = (Inr r, w') \<and>
     simulated r = Some True \<and> (\<exists>t. duration_in_traffic r = Some t)"
proof -
  have "provider_route offline_api example_world = None"
    by (simp add: provider_route_def offline_api_disabled)
  with get_optimal_route_exact [OF arith_example_world, of example_rng offline_api a b m opt]
  show ?thesis by auto
qed

text \<open>
  Claim C9.  With an empty list of responders \<open>find_nearest_responder\<close> returns \<open>None\<close>
  normally and leaves the world as it was: no route is requested.
\<close>

theorem find_nearest_responder_empty:
  "find_nearest_responder R api emergency_coords [] w = (Inr None, w)"
  by (simp add: find_nearest_responder_def)

text \<open>
  Claim C5.  For \<open>n \<ge> 1\<close>, \<open>get_multiple_routes\<close> resolves one primary route; an exception
  of that resolution is its own.  If the primary route is simulated, the list has \<open>n\<close>
  routes and the route at index \<open>i\<close> (\<open>1 \<le> i \<le> n - 1\<close>) has the primary distance times
  \<open>1 + 0.1 i\<close> and the primary duration times \<open>1 + 0.15 i\<close>; if it is not simulated, the
  list is the primary route alone.
\<close>

theorem get_multiple_routes_alternatives:
  assumes "1 \<le> n"
  shows "(\<forall>e w'. get_optimal_route R api a b ''driving'' ''time'' w = (Inl e, w') \<longrightarrow>
            get_multiple_routes R api a b n w = (Inl e, w')) \<and>
     (\<forall>primary w'. get_optimal_route R api a b ''driving'' ''time'' w = (Inr primary, w') \<longrightarrow>
        (\<exists>routes.
           get_multiple_routes R api a b n w = (Inr routes, w') \<and>
           routes ! 0 = primary \<and>
           (simulated primary = Some True \<longrightarrow>
              length routes = nat n \<and>
              (\<forall>i. 1 \<le> i \<and> i \<le> n - 1 \<longrightarrow>
                 distance (routes ! nat i) = distance primary * (1 + 0.1 * real_of_int i) \<and>
                 duration (routes ! nat i) = duration primary * (1 + 0.15 * real_of_int i))) \<and>
           (simulated primary \<noteq> Some True \<longrightarrow> routes = [primary])))"
proof (intro conjI allI impI)
  fix e w'
  assume "get_optimal_route R api a b ''driving'' ''time'' w = (Inl e, w')"
  then show "get_multiple_routes R api a b n w = (Inl e, w')"
    by (simp add: get_multiple_routes_def)
next
  fix primary w'
  assume p: "get_optimal_route R api a b ''driving'' ''time'' w = (Inr primary, w')"
  show "\<exists>routes.
           get_multiple_routes R api a b n w = (Inr routes, w') \<and>
           routes ! 0 = primary \<and>
           (simulated primary = Some True \<longrightarrow>
              length routes = nat n \<and>
              (\<forall>i. 1 \<le> i \<and> i \<le> n - 1 \<longrightarrow>
                 distance (routes ! nat i) = distance primary * (1 + 0.1 * real_of_int i) \<and>
                 duration (routes ! nat i) = duration primary * (1 + 0.15 * real_of_int i))) \<and>
           (simulated primary \<noteq> Some True \<longrightarrow> routes = [primary])"
  proof (cases "simulated primary = Some True")
    case True
    define routes where
      "routes = [primary] @ map (alternative_route primary) [1..n - 1]"
    have g: "get_multiple_routes R api a b n w = (Inr routes, w')"
      using p True by (simp add: get_multiple_routes_def routes_def)
    have len: "length routes = nat n" using assms by (simp add: routes_def)
    have alt: "routes ! nat i = alternative_route primary i" if "1 \<le> i \<and> i \<le> n - 1" for i
    proof -
      have "nat i = Suc (nat i - 1)" using that by simp
      then have "routes ! nat i = map (alternative_route primary) [1..n - 1] ! (nat i - 1)"
        by (simp add: routes_def)
      also have "\<dots> = alternative_route primary ([1..n - 1] ! (nat i - 1))"
      proof -
        have "nat i - 1 < nat (n - 1)" using that by arith
        then show ?thesis by (intro nth_map) simp
      qed
      also have "[1..n - 1] ! (nat i - 1) = i"
        using that by (intro nth_upto_from_1) simp_all
      finally show ?thesis .
    qed
    have "distance (routes ! nat i) = distance primary * (1 + 0.1 * real_of_int i) \<and>
          duration (routes ! nat i) = duration primary * (1 + 0.15 * real_of_int i)"
      if "1 \<le> i \<and> i \<le> n - 1" for i
      using alt [OF that] by (simp add: alternative_route_def)
    then show ?thesis using g len True by (auto simp add: routes_def)
  next
    case False
    then have "get_multiple_routes R api a b n w = (Inr [primary], w')"
      using p by (simp add: get_multiple_routes_def)
    then show ?thesis using False by auto
  qed
qed

theorem get_multiple_routes_alternatives_witness:
  "(1::int) \<le> 3 \<and>
   (\<exists>primary routes w'.
      get_optimal_route example_rng offline_api (0, 0) (1, 1) ''driving'' ''time'' example_world
        = (Inr primary, w') \<and>
      simulated primary = Some True \<and>
      get_multiple_routes example_rng offline_api (0, 0) (1, 1) 3 example_world
        = (Inr routes, w') \<and>
      length routes = 3 \<and> routes ! 0 = primary \<and>
      distance (routes ! 1) = distance primary * (1 + 0.1 * 1) \<and>
      duration (routes ! 2) = duration primary * (1 + 0.15 * 2))"
proof -
  have n: "(1::int) \<le> 3" by simp
  obtain primary w' where
    p: "get_optimal_route example_rng offline_api (0, 0) (1, 1) ''driving'' ''time''
          example_world = (Inr primary, w')"
    and s: "simulated primary = Some True"
    using offline_api_simulates [of "(0, 0)" "(1, 1)" "''driving''" "''time''"] by auto
  from get_multiple_routes_alternatives [OF n, of example_rng offline_api "(0, 0)" "(1, 1)"
      example_world] p
  obtain routes where
    h: "get_multiple_routes example_rng offline_api (0, 0) (1, 1) 3 example_world
          = (Inr routes, w')"
       "routes ! 0 = primary"
       "simulated primary = Some True \<longrightarrow>
          length routes = nat 3 \<and>
          (\<forall>i. 1 \<le> i \<and> i \<le> 3 - 1 \<longrightarrow>
             distance (routes ! nat i) = distance primary * (1 + 0.1 * real_of_int i) \<and>
             duration (routes ! nat i) = duration primary * (1 + 0.15 * real_of_int i))"
    by blast
  have l: "length routes = 3" using h(3) s by simp
  have "distance (routes ! nat 1) = distance primary * (1 + 0.1 * real_of_int 1)"
    using h(3) s by (elim impE conjE allE [of _ 1]) simp_all
  moreover have "duration (routes ! nat 2) = duration primary * (1 + 0.15 * real_of_int 2)"
    using h(3) s by (elim impE conjE allE [of _ 2]) simp_all
  ultimately show ?thesis using p h(1,2) s l by (intro conjI exI [of _ primary] exI [of _ routes] exI [of _ w']) simp_all
qed

section \<open>The traffic duration\<close>








text \<open>
  The statement is about the routes that \<open>get_optimal_route\<close> returns.  An alternative
  that \<open>get_multiple_routes\<close> derives from a simulated route has the duration scaled and
  the traffic duration copied: between \<open>(0, 0)\<close> and \<open>(0, 0.0262)\<close> the second
  alternative has a traffic duration below its duration.
\<close>

lemma alternative_duration_bounds:
  "5.4 \<le> 6371 * (0.0262 * pi / 180) * 1.3 / 40 * 60"
  "6371 * (0.0262 * pi / 180) * 1.3 / 40 * 60 * 1.2 \<le> 6.944"
proof -
  have e: "6371 * (0.0262 * pi / 180) * 1.3 / 40 * 60 = (130197756 / 72000000) * pi"
    by simp
  have "3 \<le> pi" by (rule pi_ge_3)
  then have "(130197756 / 72000000) * 3 \<le> (130197756 / 72000000) * pi" by simp
  then show "5.4 \<le> 6371 * (0.0262 * pi / 180) * 1.3 / 40 * 60" unfolding e by simp
  have "pi < 3.2" by (rule pi_less_32)
  then have "(130197756 / 72000000) * pi < (130197756 / 72000000) * 3.2" by simp
  then show "6371 * (0.0262 * pi / 180) * 1.3 / 40 * 60 * 1.2 \<le> 6.944" unfolding e by simp
qed

lemma alternative_traffic_below_duration:
  "\<exists>routes w' t. get_multiple_routes example_rng offline_api (0, 0) (0, 0.0262) 3 example_world
       = (Inr routes, w') \<and>
     length routes = 3 \<and> simulated (routes ! 2) = Some True \<and>
     duration_in_traffic (routes ! 2) = Some t \<and> t < duration (routes ! 2)"
proof -
  define dm :: real where "dm = 6371 * (0.0262 * pi / 180) * 1.3 / 40 * 60"
  define w0 where "w0 = example_world\<lparr>route_log := route_log example_world
      @ [((0, 0), (0, 0.0262))]\<rparr>"
  have "arith w0 = exact_arith" by (simp add: w0_def example_world_def)
  then have d: "haversine_distance (arith w0) (0, 0) (0, 0.0262)
      = Inr (6371 * (0.0262 * pi / 180))"
    using haversine_equator [of "0.0262"] by simp
  from get_simulated_route_returns [OF d, of example_rng]
  obtain r w' where
    h: "get_simulated_route example_rng (0, 0) (0, 0.0262) w0 = (Inr r, w')"
       "duration r = py_round dm 1" "duration_in_traffic r = Some (py_round (dm * 1.2) 1)"
       "simulated r = Some True"
    unfolding dm_def by force
  have "provider_route offline_api example_world = None"
    by (simp add: provider_route_def offline_api_disabled)
  then have g: "get_optimal_route example_rng offline_api (0, 0) (0, 0.0262) ''driving''
      ''time'' example_world = (Inr r, w')"
    using h(1) offline_api_disabled by (simp add: get_optimal_route_cases w0_def)
  define routes where "routes = [r] @ map (alternative_route r) [1..3 - 1]"
  have m: "get_multiple_routes example_rng offline_api (0, 0) (0, 0.0262) 3 example_world
       = (Inr routes, w')"
    using g h(4) by (simp add: get_multiple_routes_def routes_def)
  have "[1..(2::int)] = [1, 2]" by (simp add: upto_rec1)
  then have r2: "routes ! 2 = alternative_route r 2" "length routes = 3"
    by (simp_all add: routes_def)
  have "py_round 5.4 1 \<le> py_round dm 1"
    using alternative_duration_bounds(1) unfolding dm_def [symmetric] by (rule py_round_mono)
  moreover have "py_round 5.4 1 = 5.4"
    by (simp add: py_round_def round_half_even_def)
  ultimately have lo: "5.4 \<le> duration r" using h(2) by simp
  have "py_round (dm * 1.2) 1 \<le> py_round 6.944 1"
    using alternative_duration_bounds(2) unfolding dm_def [symmetric] by (rule py_round_mono)
  moreover have "py_round 6.944 1 = 6.9"
    by (simp add: py_round_def round_half_even_def)
  ultimately have hi: "py_round (dm * 1.2) 1 \<le> 6.9" by simp
  have "duration (routes ! 2) = duration r * 1.3"
    by (simp add: r2 alternative_route_def)
  then have "py_round (dm * 1.2) 1 < duration (routes ! 2)" using lo hi by simp
  moreover have "duration_in_traffic (routes ! 2) = Some (py_round (dm * 1.2) 1)"
    "simulated (routes ! 2) = Some True"
    using h(3,4) by (simp_all add: r2 alternative_route_def)
  ultimately show ?thesis using m r2(2) by blast
qed

section \<open>Properties of the simulated weather\<close>





section \<open>Recovery from provider failures\<close>














text \<open>
  A reverse request whose first adapter answers without a result: the caller receives
  \<open>None\<close> although Nominatim has a place.
\<close>

lemma reverse_geocode_first_answer:
  "fst (reverse_geocode google_geocoder 6.45 3.39 google_empty_world) = None \<and>
   reverse_geocode_nominatim google_geocoder 6.45 3.39 google_empty_world =
     Returned (Some \<lparr>rev_formatted_address = ''Lagos'', rev_city = '''',
                      rev_country = ''''\<rparr>)"
  by (simp add: reverse_geocode_def google_geocoder_def GeocodingAPI_init_def py_or_def
      getenv_def rate_limit_def Let_def google_empty_world_def nominatim_only_world_def
      reverse_geocode_google_def reverse_geocode_nominatim_def lagos_hit_def dict_get_def)


section \<open>Properties of \<open>find_nearest_responder\<close>\<close>














end
